theory Spec2Isabelle
  imports
    Main
    "HOL-Library.Mapping"
    "HOL-Library.AList_Mapping"
    "HOL-Library.Sublist"
    "HOL-Library.Char_ord"
    "HOL-Library.List_Lexorder"
begin

section \<open>The artifact download step: data model\<close>

text \<open>
  The program is one Go file, \<^verbatim>\<open>main.go\<close>: a client of the Bitrise REST API that lists the
  artifacts of a build, resolves a display name to a slug, asks for the artifact's expiring
  download URL and copies what that URL serves into a file. Go strings are byte strings and are
  modelled as \<^typ>\<open>string\<close>; Go's \<^verbatim>\<open>int\<close>, \<^verbatim>\<open>int64\<close> and \<^verbatim>\<open>time.Duration\<close> are
  modelled as \<^typ>\<open>int\<close> (the program only compares, multiplies two constants and prints them).
\<close>

definition domain :: string where
  "domain = ''https://api.bitrise.io''"

definition apiVersion :: string where
  "apiVersion = ''v0.1''"

text \<open>\<^verbatim>\<open>http.Client\<close>: the only field the program sets is \<^verbatim>\<open>Timeout\<close>, in nanoseconds.\<close>

record http_Client =
  Timeout :: int

definition Second :: int where
  "Second = 1000000000"

text \<open>\<^verbatim>\<open>http.DefaultClient\<close>, used by \<^verbatim>\<open>http.Get\<close>: the zero value, no timeout.\<close>

definition DefaultClient :: http_Client where
  "DefaultClient = \<lparr>Timeout = 0\<rparr>"

record Client =
  authToken :: string
  httpClient :: http_Client

text \<open>One element of \<^verbatim>\<open>Artifacts.Data\<close>.\<close>

record ArtifactSummary =
  ArtifactType :: string
  IsPublicPageEnabled :: bool
  Slug :: string
  Title :: string

record Paging =
  PageItemLimit :: int
  TotalItemCount :: int

record Artifacts =
  Data :: "ArtifactSummary list"
  Paging :: Paging

text \<open>
  The struct \<^verbatim>\<open>Artifact.Data\<close>. Its fields \<^verbatim>\<open>ArtifactType\<close>, \<^verbatim>\<open>IsPublicPageEnabled\<close>,
  \<^verbatim>\<open>Slug\<close> and \<^verbatim>\<open>Title\<close> carry the prefix \<open>Detail\<close> here, and the field \<^verbatim>\<open>Data\<close> of
  \<^verbatim>\<open>Artifact\<close> is \<open>DetailData\<close>, since record fields are global names.
\<close>

record ArtifactDetail =
  DetailArtifactType :: string
  ExpiringDownloadURL :: string
  DetailIsPublicPageEnabled :: bool
  PublicInstallPageURL :: string
  DetailSlug :: string
  DetailTitle :: string

record Artifact =
  DetailData :: ArtifactDetail

text \<open>
  \<^verbatim>\<open>http.Request\<close> and \<^verbatim>\<open>http.Response\<close>, with the fields the program touches. A response
  body is a stream: the bytes it delivers, the error that ends it in place of end-of-file (if
  any), and the error its \<^verbatim>\<open>Close\<close> returns (if any). \<open>bid\<close> identifies the body in the trace:
  it is the number of the round trip that produced it.
\<close>

record Request =
  Method :: string
  URL :: string
  Header :: "(string \<times> string) list"

record Body =
  bid :: nat
  stream :: string
  stream_err :: "string option"
  close_err :: "string option"

record Response =
  StatusCode :: int
  Body :: Body

text \<open>\<^verbatim>\<open>os.File\<close>: the handle \<^verbatim>\<open>os.Create\<close> returns, known by its path.\<close>

record File =
  fname :: string

text \<open>
  Go errors, by where they come from; \<open>Error\<close> is the method \<^verbatim>\<open>Error()\<close>, the message.
  \<open>Errorf\<close> is an error this program builds with \<^verbatim>\<open>fmt.Errorf\<close>; the others come from
  the standard library.
\<close>

datatype error =
    Errorf string
  | UrlError string
  | NetError string
  | DecodeError string
  | MarshalError string
  | PathError string
  | CopyError string

fun Error :: "error \<Rightarrow> string" where
  "Error (Errorf m) = m"
| "Error (UrlError m) = m"
| "Error (NetError m) = m"
| "Error (DecodeError m) = m"
| "Error (MarshalError m) = m"
| "Error (PathError m) = m"
| "Error (CopyError m) = m"

section \<open>The outside world and the state of a run\<close>

text \<open>
  Everything the program does not decide is a field of \<open>world\<close>: the environment variables,
  the answers of the network, the results of the standard library's JSON decoder and string
  encoder, of \<^verbatim>\<open>filepath.Join\<close> and of the file system calls. \<open>RoundTrip w n hc req\<close> is the
  outcome of the \<open>n\<close>-th request of the run, sent on client \<open>hc\<close>: a network error (a timeout
  among them) or a response.
\<close>

record world =
  Getenv :: "string \<Rightarrow> string"
  url_err :: "string \<Rightarrow> string option"
  RoundTrip :: "nat \<Rightarrow> http_Client \<Rightarrow> Request \<Rightarrow> string + Response"
  Decode_Artifacts :: "string \<Rightarrow> string option \<Rightarrow> string + Artifacts"
  Decode_Artifact :: "string \<Rightarrow> string option \<Rightarrow> string + Artifact"
  json_string :: "string \<Rightarrow> string"
  MkdirAll_err :: "string \<Rightarrow> string option"
  Create_err :: "string \<Rightarrow> string option"
  Write_err :: "string \<Rightarrow> string \<Rightarrow> (nat \<times> string) option"
  filepath_Join :: "string \<Rightarrow> string \<Rightarrow> string"

text \<open>The effects of a run, in order.\<close>

datatype event =
    HttpSend nat http_Client Request
  | BodyOpen nat
  | BodyDecode nat
  | BodyCopy nat string
  | BodyClose nat
  | MkdirAll string
  | Create string

record state =
  nreq :: nat
  trace :: "event list"
  files :: "string \<rightharpoonup> string"
  stdout :: string
  logged :: "string list"

definition emit :: "event \<Rightarrow> state \<Rightarrow> state" where
  "emit e s = s\<lparr>trace := trace s @ [e]\<rparr>"

section \<open>Formatting\<close>

text \<open>The verb \<^verbatim>\<open>%d\<close> of \<^verbatim>\<open>fmt\<close>: decimal digits, with a minus sign below zero.\<close>

fun digits :: "nat \<Rightarrow> string" where
  "digits n = (if n < 10 then [''0123456789'' ! n] else digits (n div 10) @ [''0123456789'' ! (n mod 10)])"

declare digits.simps [simp del]

definition Itoa :: "int \<Rightarrow> string" where
  "Itoa i = (if i < 0 then CHR ''-'' # digits (nat (- i)) else digits (nat i))"

section \<open>The HTTP client wrapper\<close>

text \<open>\<^verbatim>\<open>New\<close>: the client with the token and a transport timeout of twenty seconds.\<close>

definition New :: "string \<Rightarrow> Client" where
  "New tok = \<lparr>authToken = tok, httpClient = \<lparr>Timeout = 20 * Second\<rparr>\<rparr>"

text \<open>
  \<^verbatim>\<open>http.NewRequest(method, url, nil)\<close>: fails when the URL does not parse, and otherwise
  gives a request with an empty header.
\<close>

definition http_NewRequest :: "world \<Rightarrow> string \<Rightarrow> string \<Rightarrow> error + Request" where
  "http_NewRequest w method url =
     (case url_err w url of
        Some e \<Rightarrow> Inl (UrlError e)
      | None \<Rightarrow> Inr \<lparr>Method = method, URL = url, Header = []\<rparr>)"

text \<open>
  \<^verbatim>\<open>(*http.Client).Do\<close>: one round trip. The request is recorded in the trace; when a
  response arrives its body is open and bears the number of the round trip. A response of
  any status code is a response, not an error. What the library does inside one call (following
  redirects, giving up when the timeout elapses) is part of the world's answer.
\<close>

definition http_Client_Do ::
    "world \<Rightarrow> http_Client \<Rightarrow> Request \<Rightarrow> state \<Rightarrow> (error + Response) \<times> state" where
  "http_Client_Do w hc req s =
     (let n = nreq s;
          s1 = emit (HttpSend n hc req) (s\<lparr>nreq := Suc n\<rparr>)
      in case RoundTrip w n hc req of
           Inl e \<Rightarrow> (Inl (NetError e), s1)
         | Inr resp \<Rightarrow> (Inr (resp\<lparr>Body := (Body resp)\<lparr>bid := n\<rparr>\<rparr>), emit (BodyOpen n) s1))"

text \<open>\<^verbatim>\<open>http.Get(url)\<close>: a GET on the default client, with no header added.\<close>

definition http_Get :: "world \<Rightarrow> string \<Rightarrow> state \<Rightarrow> (error + Response) \<times> state" where
  "http_Get w url s =
     (case http_NewRequest w ''GET'' url of
        Inl err \<Rightarrow> (Inl err, s)
      | Inr req \<Rightarrow> http_Client_Do w DefaultClient req s)"

text \<open>
  \<^verbatim>\<open>Client.get\<close>. Where the source returns an empty response beside the error, the model
  returns the error alone: no caller reads the response then.
\<close>

definition get :: "world \<Rightarrow> Client \<Rightarrow> string \<Rightarrow> state \<Rightarrow> (error + Response) \<times> state" where
  "get w c endpoint s =
     (let url = domain @ ''/'' @ apiVersion @ ''/'' @ endpoint
      in case http_NewRequest w ''GET'' url of
           Inl err \<Rightarrow> (Inl err, s)
         | Inr req \<Rightarrow>
             (let req' = req\<lparr>Header := Header req @ [(''Authorization'', ''token '' @ authToken c)]\<rparr>
              in http_Client_Do w (httpClient c) req' s))"

text \<open>
  \<^verbatim>\<open>responseBodyCloser\<close>: closes the body; a failure of \<^verbatim>\<open>Close\<close> is logged and changes
  nothing else. \<open>logged\<close> keeps the line that \<^verbatim>\<open>log.Printf\<close> formats, without the time
  stamp the logger puts before it.
\<close>

definition responseBodyCloser :: "Response \<Rightarrow> state \<Rightarrow> state" where
  "responseBodyCloser resp s =
     (let s1 = emit (BodyClose (bid (Body resp))) s
      in case close_err (Body resp) of
           Some e \<Rightarrow> s1\<lparr>logged := logged s1 @ ['' [!] Failed to close response body: '' @ e]\<rparr>
         | None \<Rightarrow> s1)"

text \<open>
  \<^verbatim>\<open>json.NewDecoder(body).Decode(&art)\<close>, for the two target types: the decoder reads the
  body, and the library decides from what the body delivers whether a value or an error
  results. On an error the callers drop the value, so the model returns the error alone.
\<close>

definition json_Decode_Artifacts :: "world \<Rightarrow> Body \<Rightarrow> state \<Rightarrow> (error + Artifacts) \<times> state" where
  "json_Decode_Artifacts w b s =
     (case Decode_Artifacts w (stream b) (stream_err b) of
        Inl e \<Rightarrow> (Inl (DecodeError e), emit (BodyDecode (bid b)) s)
      | Inr art \<Rightarrow> (Inr art, emit (BodyDecode (bid b)) s))"

definition json_Decode_Artifact :: "world \<Rightarrow> Body \<Rightarrow> state \<Rightarrow> (error + Artifact) \<times> state" where
  "json_Decode_Artifact w b s =
     (case Decode_Artifact w (stream b) (stream_err b) of
        Inl e \<Rightarrow> (Inl (DecodeError e), emit (BodyDecode (bid b)) s)
      | Inr art \<Rightarrow> (Inr art, emit (BodyDecode (bid b)) s))"

section \<open>Listing, details, download\<close>

text \<open>
  The deferred \<^verbatim>\<open>responseBodyCloser\<close> runs when the function returns, after the result is
  set: on the status branch and after the decoding, not when \<^verbatim>\<open>get\<close> failed.
\<close>

definition GetArtifactsForBuild ::
    "world \<Rightarrow> Client \<Rightarrow> string \<Rightarrow> string \<Rightarrow> state \<Rightarrow> (error + Artifacts) \<times> state" where
  "GetArtifactsForBuild w c appSlug buildSlug s =
     (let requestPath = ''apps/'' @ appSlug @ ''/builds/'' @ buildSlug @ ''/artifacts''
      in case get w c requestPath s of
           (Inl err, s1) \<Rightarrow> (Inl err, s1)
         | (Inr resp, s1) \<Rightarrow>
             if StatusCode resp \<ge> 300 \<or> StatusCode resp < 200
             then (Inl (Errorf (''failed to get artifacts with status code ('' @ Itoa (StatusCode resp)
                      @ '') for [build_slug: '' @ appSlug @ '', app_slug: '' @ buildSlug @ '']'')),
                   responseBodyCloser resp s1)
             else (case json_Decode_Artifacts w (Body resp) s1 of
                     (r, s2) \<Rightarrow> (r, responseBodyCloser resp s2)))"

definition GetArtifactDetails ::
    "world \<Rightarrow> Client \<Rightarrow> string \<Rightarrow> string \<Rightarrow> string \<Rightarrow> state \<Rightarrow> (error + Artifact) \<times> state" where
  "GetArtifactDetails w c appSlug buildSlug artifactSlug s =
     (let requestPath = ''apps/'' @ appSlug @ ''/builds/'' @ buildSlug @ ''/artifacts/'' @ artifactSlug
      in case get w c requestPath s of
           (Inl err, s1) \<Rightarrow> (Inl err, s1)
         | (Inr resp, s1) \<Rightarrow>
             if StatusCode resp \<ge> 300 \<or> StatusCode resp < 200
             then (Inl (Errorf (''failed to get artifact details with status code ('' @ Itoa (StatusCode resp)
                      @ '') for [build_slug: '' @ appSlug @ '', app_slug: '' @ buildSlug @ '']'')),
                   responseBodyCloser resp s1)
             else (case json_Decode_Artifact w (Body resp) s1 of
                     (r, s2) \<Rightarrow> (r, responseBodyCloser resp s2)))"

text \<open>
  \<^verbatim>\<open>DownloadArtifact\<close> hands the body of the download response to its caller as it is: it
  neither looks at the status code of that response nor closes the body.
\<close>

definition DownloadArtifact ::
    "world \<Rightarrow> Client \<Rightarrow> string \<Rightarrow> string \<Rightarrow> string \<Rightarrow> state \<Rightarrow> (error + Body) \<times> state" where
  "DownloadArtifact w c appSlug buildSlug artifactSlug s =
     (case GetArtifactDetails w c appSlug buildSlug artifactSlug s of
        (Inl err, s1) \<Rightarrow> (Inl err, s1)
      | (Inr artifact, s1) \<Rightarrow>
          (case http_Get w (ExpiringDownloadURL (DetailData artifact)) s1 of
             (Inl err, s2) \<Rightarrow> (Inl err, s2)
           | (Inr resp, s2) \<Rightarrow> (Inr (Body resp), s2)))"

section \<open>The orchestrator\<close>

definition errNoEnv :: "string \<Rightarrow> error" where
  "errNoEnv env = Errorf (''environment variable ('' @ env @ '') is not set'')"

text \<open>\<^verbatim>\<open>os.MkdirAll\<close> and \<^verbatim>\<open>os.Create\<close>; the latter creates the file or truncates it.\<close>

definition os_MkdirAll :: "world \<Rightarrow> string \<Rightarrow> state \<Rightarrow> error option \<times> state" where
  "os_MkdirAll w dir s =
     (case MkdirAll_err w dir of
        Some e \<Rightarrow> (Some (PathError e), emit (MkdirAll dir) s)
      | None \<Rightarrow> (None, emit (MkdirAll dir) s))"

definition os_Create :: "world \<Rightarrow> string \<Rightarrow> state \<Rightarrow> (error + File) \<times> state" where
  "os_Create w path s =
     (case Create_err w path of
        Some e \<Rightarrow> (Inl (PathError e), s)
      | None \<Rightarrow> (Inr \<lparr>fname = path\<rparr>, emit (Create path) (s\<lparr>files := (files s)(path \<mapsto> [])\<rparr>)))"

text \<open>
  \<^verbatim>\<open>io.Copy(file, reader)\<close>: reads the stream to its end and appends what it reads to the
  file. A failing write stops it after \<open>k\<close> bytes; a stream that ends in an error gives
  that error after its bytes are written. The count is the number of bytes written.
\<close>

definition file_append :: "string \<Rightarrow> string \<Rightarrow> state \<Rightarrow> state" where
  "file_append path bs s =
     s\<lparr>files := (files s)(path \<mapsto> (case files s path of None \<Rightarrow> [] | Some old \<Rightarrow> old) @ bs)\<rparr>"

definition io_Copy :: "world \<Rightarrow> File \<Rightarrow> Body \<Rightarrow> state \<Rightarrow> (int \<times> error option) \<times> state" where
  "io_Copy w file reader s =
     (let s1 = emit (BodyCopy (bid reader) (fname file)) s
      in case Write_err w (fname file) (stream reader) of
           Some (k, e) \<Rightarrow>
             ((int (length (take k (stream reader))), Some (CopyError e)),
              file_append (fname file) (take k (stream reader)) s1)
         | None \<Rightarrow>
             (case stream_err reader of
                Some e \<Rightarrow>
                  ((int (length (stream reader)), Some (CopyError e)),
                   file_append (fname file) (stream reader) s1)
              | None \<Rightarrow>
                  ((int (length (stream reader)), None),
                   file_append (fname file) (stream reader) s1)))"

text \<open>
  \<^verbatim>\<open>json.MarshalIndent(m, "", "  ")\<close> on a \<^verbatim>\<open>map[string]string\<close>: the keys in byte
  order, one \<^verbatim>\<open>"key": "value"\<close> line each, indented by two spaces; the empty map is
  \<^verbatim>\<open>{}\<close>. The encoding of one string is the library's (\<open>json_string\<close>). It has no failure
  on this type.
\<close>

definition marshal_line :: "world \<Rightarrow> (string, string) mapping \<Rightarrow> string \<Rightarrow> string" where
  "marshal_line w m k =
     ''  '' @ json_string w k @ '': '' @ json_string w (case Mapping.lookup m k of None \<Rightarrow> [] | Some v \<Rightarrow> v)"

fun join_lines :: "string list \<Rightarrow> string" where
  "join_lines [] = []"
| "join_lines [l] = l"
| "join_lines (l # ls) = l @ '',\<newline>'' @ join_lines ls"

definition json_MarshalIndent :: "world \<Rightarrow> (string, string) mapping \<Rightarrow> error + string" where
  "json_MarshalIndent w m =
     (case Mapping.ordered_keys m of
        [] \<Rightarrow> Inr ''{}''
      | k # ks \<Rightarrow> Inr (''{\<newline>'' @ join_lines (map (marshal_line w m) (k # ks)) @ ''\<newline>}''))"

text \<open>The loop of \<^verbatim>\<open>mainE\<close> that fills \<^verbatim>\<open>artifactSlugMap\<close>, from the empty map.\<close>

fun artifactSlugMap_loop ::
    "(string, string) mapping \<Rightarrow> ArtifactSummary list \<Rightarrow> (string, string) mapping" where
  "artifactSlugMap_loop m [] = m"
| "artifactSlugMap_loop m (artifact # rest) =
     artifactSlugMap_loop (Mapping.update (Title artifact) (Slug artifact) m) rest"

definition artifactSlugMap :: "ArtifactSummary list \<Rightarrow> (string, string) mapping" where
  "artifactSlugMap data = artifactSlugMap_loop Mapping.empty data"

definition mainE :: "world \<Rightarrow> state \<Rightarrow> error option \<times> state" where
  "mainE w s =
     (let accessToken = Getenv w ''API_AUTH_TOKEN'' in
      if accessToken = [] then (Some (errNoEnv ''API_AUTH_TOKEN''), s) else
      let appSlug = Getenv w ''APP_SLUG'' in
      if appSlug = [] then (Some (errNoEnv ''APP_SLUG''), s) else
      let buildSlug = Getenv w ''WORKFLOW_SLUG_ID'' in
      if buildSlug = [] then (Some (errNoEnv ''WORKFLOW_SLUG_ID''), s) else
      let artifactName = Getenv w ''ARTIFACT_NAME'' in
      if artifactName = [] then (Some (errNoEnv ''ARTIFACT_NAME''), s) else
      let downloadDir = (if Getenv w ''DOWNLOAD_DIR'' = [] then ''.'' else Getenv w ''DOWNLOAD_DIR'') in
      (case os_MkdirAll w downloadDir s of
        (Some err, s1) \<Rightarrow> (Some err, s1)
      | (None, s1) \<Rightarrow>
      (let c = New accessToken in
      (case GetArtifactsForBuild w c appSlug buildSlug s1 of
        (Inl err, s2) \<Rightarrow> (Some err, s2)
      | (Inr artifacts, s2) \<Rightarrow>
      (let slugMap = artifactSlugMap (Data artifacts) in
      (case Mapping.lookup slugMap artifactName of
        None \<Rightarrow>
          (case json_MarshalIndent w slugMap of
             Inl err \<Rightarrow> (Some err, s2)
           | Inr keys \<Rightarrow>
               (Some (Errorf (''unable to find artifact with name ('' @ artifactName
                  @ ''), available artifacts:\<newline>'' @ keys)), s2))
      | Some artifactSlug \<Rightarrow>
      (case DownloadArtifact w c appSlug buildSlug artifactSlug s2 of
        (Inl err, s3) \<Rightarrow> (Some err, s3)
      | (Inr reader, s3) \<Rightarrow>
      (case os_Create w (filepath_Join w downloadDir artifactName) s3 of
        (Inl err, s4) \<Rightarrow> (Some err, s4)
      | (Inr file, s4) \<Rightarrow>
      (case io_Copy w file reader s4 of
        ((n, Some err), s5) \<Rightarrow> (Some err, s5)
      | ((n, None), s5) \<Rightarrow>
          (None, s5\<lparr>stdout := stdout s5 @ ''done, ['' @ Itoa n @ '' byte] downloaded\<newline>''\<rparr>))))))))))"

text \<open>
  \<^verbatim>\<open>main\<close>: the state the process ends in and its exit status. A run starts with no request
  sent, an empty trace and nothing printed, on the files \<open>fs\<close> that exist already.
\<close>

definition init :: "(string \<rightharpoonup> string) \<Rightarrow> state" where
  "init fs = \<lparr>nreq = 0, trace = [], files = fs, stdout = [], logged = []\<rparr>"

definition main :: "world \<Rightarrow> (string \<rightharpoonup> string) \<Rightarrow> int \<times> state" where
  "main w fs =
     (case mainE w (init fs) of
        (Some err, s) \<Rightarrow> (1, s\<lparr>stdout := stdout s @ ''Error: '' @ Error err @ ''\<newline>''\<rparr>)
      | (None, s) \<Rightarrow> (0, s))"

section \<open>Notions used by the statements\<close>

text \<open>The events a call adds to the trace: those of the state after it, past those before.\<close>

definition events_since :: "state \<Rightarrow> state \<Rightarrow> event list" where
  "events_since s s' = drop (length (trace s)) (trace s')"

text \<open>The four required variables, in the order in which \<^verbatim>\<open>mainE\<close> reads them.\<close>

definition required_env :: "string list" where
  "required_env = [''API_AUTH_TOKEN'', ''APP_SLUG'', ''WORKFLOW_SLUG_ID'', ''ARTIFACT_NAME'']"

text \<open>
  All four required variables are set; and the way a failing run ends: exit status 1, with
  \<^verbatim>\<open>Error: \<close>, the message of the error and a newline as the whole of standard output.
\<close>

definition env_set :: "world \<Rightarrow> bool" where
  "env_set w \<longleftrightarrow>
     Getenv w ''API_AUTH_TOKEN'' \<noteq> [] \<and> Getenv w ''APP_SLUG'' \<noteq> [] \<and>
     Getenv w ''WORKFLOW_SLUG_ID'' \<noteq> [] \<and> Getenv w ''ARTIFACT_NAME'' \<noteq> []"

definition exits_with_error :: "world \<Rightarrow> (string \<rightharpoonup> string) \<Rightarrow> error \<Rightarrow> bool" where
  "exits_with_error w fs e \<longleftrightarrow>
     fst (main w fs) = 1 \<and> stdout (snd (main w fs)) = ''Error: '' @ Error e @ ''\<newline>''"

section \<open>A concrete world\<close>

text \<open>
  One build with one artifact, \<^verbatim>\<open>app.apk\<close> of slug \<^verbatim>\<open>abc123\<close>, whose download URL serves
  1024 bytes. The world takes the environment and the status codes of the listing and of the
  detail endpoint, so that the same definitions give the successful run and the failing ones.
  \<open>DOWNLOAD_DIR\<close> is unset.
\<close>

definition sample_env :: "string \<Rightarrow> string \<Rightarrow> string" where
  "sample_env name k =
     (if k = ''API_AUTH_TOKEN'' then ''secret''
      else if k = ''APP_SLUG'' then ''app1''
      else if k = ''WORKFLOW_SLUG_ID'' then ''build7''
      else if k = ''ARTIFACT_NAME'' then name
      else [])"

definition sample_listing :: Artifacts where
  "sample_listing =
     \<lparr>Data = [\<lparr>ArtifactType = ''android-apk'', IsPublicPageEnabled = False,
               Slug = ''abc123'', Title = ''app.apk''\<rparr>],
      Paging = \<lparr>PageItemLimit = 50, TotalItemCount = 1\<rparr>\<rparr>"

definition sample_detail :: Artifact where
  "sample_detail =
     \<lparr>DetailData = \<lparr>DetailArtifactType = ''android-apk'',
                     ExpiringDownloadURL = ''https://files.example/app.apk?sig=1'',
                     DetailIsPublicPageEnabled = False, PublicInstallPageURL = [],
                     DetailSlug = ''abc123'', DetailTitle = ''app.apk''\<rparr>\<rparr>"

definition sample_response :: "int \<Rightarrow> string \<Rightarrow> Response" where
  "sample_response code bs =
     \<lparr>StatusCode = code, Body = \<lparr>bid = 0, stream = bs, stream_err = None, close_err = None\<rparr>\<rparr>"

definition sample_world :: "(string \<Rightarrow> string) \<Rightarrow> int \<Rightarrow> int \<Rightarrow> world" where
  "sample_world env code1 code2 =
     \<lparr>Getenv = env,
      url_err = (\<lambda>u. None),
      RoundTrip = (\<lambda>n hc req.
        if URL req = ''https://api.bitrise.io/v0.1/apps/app1/builds/build7/artifacts''
        then Inr (sample_response code1 ''listing'')
        else if URL req = ''https://api.bitrise.io/v0.1/apps/app1/builds/build7/artifacts/abc123''
        then Inr (sample_response code2 ''detail'')
        else if URL req = ''https://files.example/app.apk?sig=1''
        then Inr (sample_response 200 (replicate 1024 (CHR ''x'')))
        else Inl ''no such host''),
      Decode_Artifacts =
        (\<lambda>bs e. if bs = ''listing'' then Inr sample_listing else Inl ''unexpected end of JSON input''),
      Decode_Artifact =
        (\<lambda>bs e. if bs = ''detail'' then Inr sample_detail else Inl ''unexpected end of JSON input''),
      json_string = (\<lambda>x. [CHR 0x22] @ x @ [CHR 0x22]),
      MkdirAll_err = (\<lambda>d. None),
      Create_err = (\<lambda>p. None),
      Write_err = (\<lambda>p bs. None),
      filepath_Join = (\<lambda>d n. if d = ''.'' then n else d @ ''/'' @ n)\<rparr>"

text \<open>
  The same world, except that the download URL answers with status 404 and the nine bytes
  \<^verbatim>\<open>Not Found\<close>.
\<close>

definition not_found_world :: world where
  "not_found_world =
     (sample_world (sample_env ''app.apk'') 200 200)
       \<lparr>RoundTrip := (\<lambda>n hc req.
          if URL req = ''https://files.example/app.apk?sig=1''
          then Inr (sample_response 404 ''Not Found'')
          else RoundTrip (sample_world (sample_env ''app.apk'') 200 200) n hc req)\<rparr>"

section \<open>Auxiliary facts\<close>

lemmas step_defs = get_def http_Get_def http_NewRequest_def http_Client_Do_def emit_def
  responseBodyCloser_def json_Decode_Artifacts_def json_Decode_Artifact_def Let_def

lemmas run_defs = main_def mainE_def init_def os_MkdirAll_def os_Create_def io_Copy_def
  file_append_def GetArtifactsForBuild_def GetArtifactDetails_def DownloadArtifact_def step_defs
  New_def errNoEnv_def artifactSlugMap_def json_MarshalIndent_def marshal_line_def domain_def
  apiVersion_def DefaultClient_def Second_def events_since_def

lemmas sample_defs = sample_world_def sample_env_def sample_response_def sample_listing_def
  sample_detail_def

subsection \<open>Substrings\<close>

lemma sublist_skip: "sublist x ys \<Longrightarrow> sublist x (zs @ ys)"
  unfolding sublist_def by (metis append_assoc)

lemma sublist_keep: "sublist x ys \<Longrightarrow> sublist x (ys @ zs)"
  unfolding sublist_def by (metis append_assoc)

lemma status_msg_contains:
  "sublist code (p1 @ code @ p2 @ app @ p3 @ build @ p4) \<and>
   sublist app (p1 @ code @ p2 @ app @ p3 @ build @ p4) \<and>
   sublist build (p1 @ code @ p2 @ app @ p3 @ build @ p4)"
  by (intro conjI sublist_appendI sublist_skip)

subsection \<open>The map of titles\<close>

lemma loop_lookup:
  "Mapping.lookup (artifactSlugMap_loop m ds) t =
     (case filter (\<lambda>a. Title a = t) ds of
        [] \<Rightarrow> Mapping.lookup m t
      | x # xs \<Rightarrow> Some (Slug (last (x # xs))))"
  by (induction ds arbitrary: m) (auto simp: lookup_update' split: list.splits)

lemma loop_keys:
  "Mapping.keys (artifactSlugMap_loop m ds) = Mapping.keys m \<union> Title ` set ds"
  by (induction ds arbitrary: m) auto

lemma loop_finite:
  "finite (Mapping.keys m) \<Longrightarrow> finite (Mapping.keys (artifactSlugMap_loop m ds))"
  by (induction ds arbitrary: m) auto

lemma slugMap_finite: "finite (Mapping.keys (artifactSlugMap ds))"
  by (simp add: artifactSlugMap_def loop_finite)

subsection \<open>The serialized map\<close>

lemma join_lines_Cons:
  "join_lines (l # ls) = (if ls = [] then l else l @ '',\<newline>'' @ join_lines ls)"
  by (cases ls) simp_all

lemma join_lines_contains:
  "k \<in> set ks \<Longrightarrow> sublist (f k) (join_lines (map f ks))"
proof (induction ks)
  case Nil
  then show ?case by simp
next
  case (Cons l ls)
  show ?case
  proof (cases "k = l")
    case True
    then show ?thesis by (simp add: join_lines_Cons)
  next
    case False
    with Cons have k: "k \<in> set ls" and ih: "sublist (f k) (join_lines (map f ls))"
      by simp_all
    from ih have "sublist (f k) ((f l @ '',\<newline>'') @ join_lines (map f ls))"
      by (rule sublist_skip)
    with k show ?thesis by (auto simp: join_lines_Cons)
  qed
qed

lemma marshal_total: "\<exists>keys. json_MarshalIndent w m = Inr keys"
  by (simp add: json_MarshalIndent_def split: list.splits)

lemma marshal_contains:
  assumes "Mapping.lookup (artifactSlugMap ds) t = Some sl"
  shows "\<exists>keys. json_MarshalIndent w (artifactSlugMap ds) = Inr keys \<and>
           sublist (json_string w t @ '': '' @ json_string w sl) keys"
proof -
  let ?m = "artifactSlugMap ds"
  from assms have "t \<in> Mapping.keys ?m"
    by (simp add: keys_dom_lookup domI)
  then have mem: "t \<in> set (Mapping.ordered_keys ?m)"
    using slugMap_finite by simp
  then obtain k ks where ks: "Mapping.ordered_keys ?m = k # ks"
    by (cases "Mapping.ordered_keys ?m") auto
  have "sublist (marshal_line w ?m t) (join_lines (map (marshal_line w ?m) (Mapping.ordered_keys ?m)))"
    using mem by (rule join_lines_contains)
  moreover have "marshal_line w ?m t = ''  '' @ (json_string w t @ '': '' @ json_string w sl)"
    using assms by (simp add: marshal_line_def)
  ultimately have "sublist (json_string w t @ '': '' @ json_string w sl)
      (join_lines (map (marshal_line w ?m) (Mapping.ordered_keys ?m)))"
    by (metis sublist_order.order.trans sublist_append_leftI)
  then have "sublist (json_string w t @ '': '' @ json_string w sl)
      (''{\<newline>'' @ join_lines (map (marshal_line w ?m) (Mapping.ordered_keys ?m)) @ ''\<newline>}'')"
    by (intro sublist_skip sublist_keep)
  then show ?thesis
    by (simp add: json_MarshalIndent_def ks)
qed

subsection \<open>What each call adds to the state\<close>

lemma get_events:
  "events_since s (snd (get w c endpoint s)) =
     (case url_err w (domain @ ''/'' @ apiVersion @ ''/'' @ endpoint) of
        Some e \<Rightarrow> []
      | None \<Rightarrow>
          HttpSend (nreq s) (httpClient c)
            \<lparr>Method = ''GET'', URL = domain @ ''/'' @ apiVersion @ ''/'' @ endpoint,
             Header = [(''Authorization'', ''token '' @ authToken c)]\<rparr>
          # (case RoundTrip w (nreq s) (httpClient c)
                 \<lparr>Method = ''GET'', URL = domain @ ''/'' @ apiVersion @ ''/'' @ endpoint,
                  Header = [(''Authorization'', ''token '' @ authToken c)]\<rparr> of
               Inl e \<Rightarrow> [] | Inr r \<Rightarrow> [BodyOpen (nreq s)]))"
  by (simp add: events_since_def step_defs split: option.splits sum.splits)

lemma get_Inr:
  assumes "get w c endpoint s = (Inr resp, s1)"
  shows "\<exists>r. RoundTrip w (nreq s) (httpClient c)
               \<lparr>Method = ''GET'', URL = domain @ ''/'' @ apiVersion @ ''/'' @ endpoint,
                Header = [(''Authorization'', ''token '' @ authToken c)]\<rparr> = Inr r \<and>
             resp = r\<lparr>Body := (Body r)\<lparr>bid := nreq s\<rparr>\<rparr> \<and>
             s1 = s\<lparr>nreq := Suc (nreq s),
                    trace := trace s @ [HttpSend (nreq s) (httpClient c)
                      \<lparr>Method = ''GET'', URL = domain @ ''/'' @ apiVersion @ ''/'' @ endpoint,
                       Header = [(''Authorization'', ''token '' @ authToken c)]\<rparr>, BodyOpen (nreq s)]\<rparr>"
  using assms by (auto simp: step_defs split: option.splits sum.splits)

lemma closer_trace: "trace (responseBodyCloser resp s) = trace s @ [BodyClose (bid (Body resp))]"
  by (simp add: responseBodyCloser_def emit_def Let_def split: option.splits)

lemma closer_frame:
  "stdout (responseBodyCloser resp s) = stdout s \<and> files (responseBodyCloser resp s) = files s
   \<and> nreq (responseBodyCloser resp s) = nreq s"
  by (simp add: responseBodyCloser_def emit_def Let_def split: option.splits)

lemma get_frame:
  "get w c endpoint s = (r, s1) \<Longrightarrow> stdout s1 = stdout s \<and> files s1 = files s"
  by (auto simp: step_defs split: option.splits sum.splits)

lemma http_Get_frame:
  "http_Get w url s = (r, s1) \<Longrightarrow> stdout s1 = stdout s \<and> files s1 = files s"
  by (auto simp: step_defs split: option.splits sum.splits)

lemma GetArtifactsForBuild_frame:
  "GetArtifactsForBuild w c app build s = (r, s1) \<Longrightarrow> stdout s1 = stdout s \<and> files s1 = files s"
  by (auto simp: GetArtifactsForBuild_def Let_def closer_frame json_Decode_Artifacts_def emit_def
      dest!: get_frame split: prod.splits sum.splits if_splits)

lemma GetArtifactDetails_frame:
  "GetArtifactDetails w c app build slug s = (r, s1) \<Longrightarrow> stdout s1 = stdout s \<and> files s1 = files s"
  by (auto simp: GetArtifactDetails_def Let_def closer_frame json_Decode_Artifact_def emit_def
      dest!: get_frame split: prod.splits sum.splits if_splits)

lemma DownloadArtifact_frame:
  "DownloadArtifact w c app build slug s = (r, s1) \<Longrightarrow> stdout s1 = stdout s \<and> files s1 = files s"
  by (auto simp: DownloadArtifact_def dest!: GetArtifactDetails_frame http_Get_frame
      split: prod.splits sum.splits)

lemma os_MkdirAll_frame:
  "os_MkdirAll w dir s = (r, s1) \<Longrightarrow> stdout s1 = stdout s \<and> files s1 = files s \<and> nreq s1 = nreq s"
  by (auto simp: os_MkdirAll_def emit_def split: option.splits)

lemma os_Create_frame:
  "os_Create w path s = (r, s1) \<Longrightarrow> stdout s1 = stdout s"
  by (auto simp: os_Create_def emit_def split: option.splits)

lemma io_Copy_frame:
  "io_Copy w fl reader s = (r, s1) \<Longrightarrow> stdout s1 = stdout s"
  by (auto simp: io_Copy_def emit_def file_append_def Let_def split: option.splits)

lemma mainE_failure_stdout:
  assumes "mainE w s = (Some err, s')"
  shows "stdout s' = stdout s"
  using assms
  by (auto simp: mainE_def Let_def json_MarshalIndent_def
      dest!: os_MkdirAll_frame GetArtifactsForBuild_frame DownloadArtifact_frame os_Create_frame
        io_Copy_frame
      split: if_splits prod.splits sum.splits option.splits list.splits)

lemma GetArtifactsForBuild_Inr:
  assumes "GetArtifactsForBuild w c app build s = (Inr arts, s')"
  shows "nreq s' = Suc (nreq s) \<and>
         trace s' = trace s @
           [HttpSend (nreq s) (httpClient c)
              \<lparr>Method = ''GET'',
               URL = domain @ ''/'' @ apiVersion @ ''/'' @ ''apps/'' @ app @ ''/builds/'' @ build @ ''/artifacts'',
               Header = [(''Authorization'', ''token '' @ authToken c)]\<rparr>,
            BodyOpen (nreq s), BodyDecode (nreq s), BodyClose (nreq s)]"
  using assms
  by (auto simp: GetArtifactsForBuild_def step_defs split: option.splits sum.splits if_splits)

lemma GetArtifactDetails_Inr:
  assumes "GetArtifactDetails w c app build slug s = (Inr art, s')"
  shows "nreq s' = Suc (nreq s) \<and> (\<exists>evs. trace s' = trace s @ evs)"
  using assms
  by (auto simp: GetArtifactDetails_def step_defs split: option.splits sum.splits if_splits)

lemma DownloadArtifact_Inr:
  assumes "DownloadArtifact w c app build slug s = (Inr reader, s')"
  shows "\<exists>url resp evs.
           RoundTrip w (Suc (nreq s)) DefaultClient \<lparr>Method = ''GET'', URL = url, Header = []\<rparr> = Inr resp \<and>
           reader = (Body resp)\<lparr>bid := Suc (nreq s)\<rparr> \<and>
           trace s' = trace s @ evs @
             [HttpSend (Suc (nreq s)) DefaultClient \<lparr>Method = ''GET'', URL = url, Header = []\<rparr>,
              BodyOpen (Suc (nreq s))]"
proof -
  from assms obtain art s1 resp' where
    d: "GetArtifactDetails w c app build slug s = (Inr art, s1)" and
    g: "http_Get w (ExpiringDownloadURL (DetailData art)) s1 = (Inr resp', s')" and
    r: "reader = Body resp'"
    by (auto simp: DownloadArtifact_def split: prod.splits sum.splits)
  from GetArtifactDetails_Inr [OF d] obtain evs where
    n: "nreq s1 = Suc (nreq s)" and t: "trace s1 = trace s @ evs"
    by auto
  let ?req = "\<lparr>Method = ''GET'', URL = ExpiringDownloadURL (DetailData art), Header = []\<rparr>"
  from g obtain resp where
    rt: "RoundTrip w (nreq s1) DefaultClient ?req = Inr resp" and
    resp': "resp' = resp\<lparr>Body := (Body resp)\<lparr>bid := nreq s1\<rparr>\<rparr>" and
    t': "trace s' = trace s1 @ [HttpSend (nreq s1) DefaultClient ?req, BodyOpen (nreq s1)]"
    by (auto simp: step_defs split: option.splits sum.splits)
  show ?thesis
    using rt resp' t' r n t by auto
qed

subsection \<open>The bodies that \<^verbatim>\<open>get\<close> opens are closed by the function that asked for them\<close>

lemma GetArtifactsForBuild_closes:
  assumes "BodyOpen n \<in> set (events_since s (snd (GetArtifactsForBuild w c app build s)))"
  shows "BodyClose n \<in> set (events_since s (snd (GetArtifactsForBuild w c app build s)))"
  using assms
  by (auto simp: GetArtifactsForBuild_def events_since_def step_defs
      split: option.splits sum.splits if_splits)

lemma GetArtifactDetails_closes:
  assumes "BodyOpen n \<in> set (events_since s (snd (GetArtifactDetails w c app build slug s)))"
  shows "BodyClose n \<in> set (events_since s (snd (GetArtifactDetails w c app build slug s)))"
  using assms
  by (auto simp: GetArtifactDetails_def events_since_def step_defs
      split: option.splits sum.splits if_splits)

subsection \<open>No run closes a body other than the listing's and the detail's\<close>

lemma get_trace:
  "get w c endpoint s = (r, s') \<Longrightarrow>
     nreq s \<le> nreq s' \<and> nreq s' \<le> Suc (nreq s) \<and>
     (\<exists>evs. trace s' = trace s @ evs \<and> (\<forall>k. BodyClose k \<notin> set evs))"
  by (auto simp: step_defs split: option.splits sum.splits)

lemma http_Get_trace:
  "http_Get w url s = (r, s') \<Longrightarrow>
     (\<exists>evs. trace s' = trace s @ evs \<and> (\<forall>k. BodyClose k \<notin> set evs))"
  by (auto simp: step_defs split: option.splits sum.splits)

lemma GetArtifactsForBuild_trace:
  assumes "GetArtifactsForBuild w c app build s = (r, s')"
  shows "nreq s' \<le> Suc (nreq s) \<and>
     (\<exists>evs. trace s' = trace s @ evs \<and> (\<forall>k. BodyClose k \<in> set evs \<longrightarrow> k = nreq s))"
  using assms
  by (auto simp: GetArtifactsForBuild_def step_defs split: option.splits sum.splits if_splits)

lemma GetArtifactDetails_trace:
  assumes "GetArtifactDetails w c app build slug s = (r, s')"
  shows "nreq s' \<le> Suc (nreq s) \<and>
     (\<exists>evs. trace s' = trace s @ evs \<and> (\<forall>k. BodyClose k \<in> set evs \<longrightarrow> k = nreq s))"
  using assms
  by (auto simp: GetArtifactDetails_def step_defs split: option.splits sum.splits if_splits)

lemma DownloadArtifact_trace:
  assumes "DownloadArtifact w c app build slug s = (r, s')"
  shows "\<exists>evs. trace s' = trace s @ evs \<and> (\<forall>k. BodyClose k \<in> set evs \<longrightarrow> k = nreq s)"
proof -
  obtain r1 s1 where d: "GetArtifactDetails w c app build slug s = (r1, s1)"
    by (cases "GetArtifactDetails w c app build slug s")
  from GetArtifactDetails_trace [OF d] obtain evs where
    e: "trace s1 = trace s @ evs" "\<forall>k. BodyClose k \<in> set evs \<longrightarrow> k = nreq s"
    by blast
  show ?thesis
  proof (cases r1)
    case (Inl err)
    with assms d have "s' = s1" by (simp add: DownloadArtifact_def)
    with e show ?thesis by blast
  next
    case (Inr art)
    obtain r2 s2 where g: "http_Get w (ExpiringDownloadURL (DetailData art)) s1 = (r2, s2)"
      by (cases "http_Get w (ExpiringDownloadURL (DetailData art)) s1")
    from http_Get_trace [OF g] obtain evs' where
      e': "trace s2 = trace s1 @ evs'" "\<forall>k. BodyClose k \<notin> set evs'"
      by blast
    from assms d Inr g have "s' = s2"
      by (auto simp: DownloadArtifact_def split: sum.splits)
    with e e' have "trace s' = trace s @ (evs @ evs')" "\<forall>k. BodyClose k \<in> set (evs @ evs') \<longrightarrow> k = nreq s"
      by auto
    then show ?thesis by blast
  qed
qed

lemma mainE_closes_only_get_bodies:
  assumes m: "mainE w (init fs) = (r, st)" and k: "BodyClose k \<in> set (trace st)"
  shows "k < 2"
proof -
  let ?tok = "Getenv w ''API_AUTH_TOKEN''" and ?app = "Getenv w ''APP_SLUG''"
  let ?build = "Getenv w ''WORKFLOW_SLUG_ID''" and ?name = "Getenv w ''ARTIFACT_NAME''"
  let ?dir = "if Getenv w ''DOWNLOAD_DIR'' = [] then ''.'' else Getenv w ''DOWNLOAD_DIR''"
  show ?thesis
  proof (cases "?tok = [] \<or> ?app = [] \<or> ?build = [] \<or> ?name = []")
    case True
    with m have "st = init fs"
      by (auto simp: mainE_def Let_def split: if_splits)
    with k show ?thesis by (simp add: init_def)
  next
    case env: False
    obtain r1 s1 where mk: "os_MkdirAll w ?dir (init fs) = (r1, s1)"
      by (cases "os_MkdirAll w ?dir (init fs)")
    then have t1: "trace s1 = [MkdirAll ?dir]" and n1: "nreq s1 = 0"
      by (auto simp: os_MkdirAll_def emit_def init_def split: option.splits)
    obtain r2 s2 where ls: "GetArtifactsForBuild w (New ?tok) ?app ?build s1 = (r2, s2)"
      by (cases "GetArtifactsForBuild w (New ?tok) ?app ?build s1")
    from GetArtifactsForBuild_trace [OF ls] n1 t1 obtain evs where
      n2: "nreq s2 \<le> 1" and t2: "trace s2 = MkdirAll ?dir # evs" and
      c2: "\<forall>j. BodyClose j \<in> set evs \<longrightarrow> j = 0"
      by auto
    have rest: "\<exists>evs'. trace st = trace s2 @ evs' \<and> (\<forall>j. BodyClose j \<in> set evs' \<longrightarrow> j = nreq s2)"
      if r1: "r1 = None" and r2: "r2 = Inr arts"
        and sl: "Mapping.lookup (artifactSlugMap (Data arts)) ?name = Some slug" for arts slug
    proof -
      obtain r3 s3 where dl: "DownloadArtifact w (New ?tok) ?app ?build slug s2 = (r3, s3)"
        by (cases "DownloadArtifact w (New ?tok) ?app ?build slug s2")
      from DownloadArtifact_trace [OF dl] obtain evs3 where
        t3: "trace s3 = trace s2 @ evs3" and c3: "\<forall>j. BodyClose j \<in> set evs3 \<longrightarrow> j = nreq s2"
        by blast
      have "\<exists>evs4. trace st = trace s3 @ evs4 \<and> (\<forall>j. BodyClose j \<notin> set evs4)"
        using m env mk ls dl r1 r2 sl
        unfolding mainE_def Let_def
        by (auto simp: os_Create_def io_Copy_def file_append_def emit_def Let_def
            split: sum.splits option.splits prod.splits)
      then obtain evs4 where "trace st = trace s2 @ (evs3 @ evs4)" "\<forall>j. BodyClose j \<notin> set evs4"
        using t3 by auto
      with c3 show ?thesis
        by (intro exI [of _ "evs3 @ evs4"]) auto
    qed
    have early: "st = s1 \<or> st = s2"
      if "r1 \<noteq> None \<or> (\<forall>arts. r2 \<noteq> Inr arts) \<or>
          (\<exists>arts. r2 = Inr arts \<and> Mapping.lookup (artifactSlugMap (Data arts)) ?name = None)"
      using that m env mk ls unfolding mainE_def Let_def
      by (auto simp: json_MarshalIndent_def split: sum.splits option.splits list.splits)
    show ?thesis
    proof (cases "r1 = None \<and> (\<exists>arts slug. r2 = Inr arts \<and>
        Mapping.lookup (artifactSlugMap (Data arts)) ?name = Some slug)")
      case True
      then obtain arts slug where "r1 = None" "r2 = Inr arts"
        "Mapping.lookup (artifactSlugMap (Data arts)) ?name = Some slug"
        by blast
      from rest [OF this] obtain evs' where
        t: "trace st = trace s2 @ evs'" and c: "\<forall>j. BodyClose j \<in> set evs' \<longrightarrow> j = nreq s2"
        by blast
      from k t t2 have "BodyClose k \<in> set evs \<or> BodyClose k \<in> set evs'"
        by auto
      with c2 c n2 have "k = 0 \<or> k \<le> 1"
        by blast
      then show ?thesis
        by auto
    next
      case False
      then have "r1 \<noteq> None \<or> (\<forall>arts. r2 \<noteq> Inr arts) \<or>
          (\<exists>arts. r2 = Inr arts \<and> Mapping.lookup (artifactSlugMap (Data arts)) ?name = None)"
        by (cases r2) auto
      from early [OF this] t1 t2 k have "BodyClose k \<in> set evs"
        by auto
      with c2 have "k = 0"
        by blast
      then show ?thesis
        by simp
    qed
  qed
qed

subsection \<open>The run that succeeds\<close>

lemma mainE_success:
  fixes w :: world and fs :: "string \<rightharpoonup> string"
  defines "dir \<equiv> (if Getenv w ''DOWNLOAD_DIR'' = [] then ''.'' else Getenv w ''DOWNLOAD_DIR'')"
  defines "path \<equiv> filepath_Join w dir (Getenv w ''ARTIFACT_NAME'')"
  assumes m: "mainE w (init fs) = (None, st)"
  shows "\<exists>url resp evs.
           RoundTrip w 2 DefaultClient \<lparr>Method = ''GET'', URL = url, Header = []\<rparr> = Inr resp \<and>
           stream_err (Body resp) = None \<and>
           trace st = evs @
             [HttpSend 2 DefaultClient \<lparr>Method = ''GET'', URL = url, Header = []\<rparr>, BodyOpen 2,
              Create path, BodyCopy 2 path] \<and>
           files st path = Some (stream (Body resp)) \<and>
           stdout st = ''done, ['' @ Itoa (int (length (stream (Body resp)))) @ '' byte] downloaded\<newline>''"
proof -
  let ?tok = "Getenv w ''API_AUTH_TOKEN''" and ?app = "Getenv w ''APP_SLUG''"
  let ?build = "Getenv w ''WORKFLOW_SLUG_ID''" and ?name = "Getenv w ''ARTIFACT_NAME''"
  from m obtain s1 arts s2 slug reader s3 fl s4 n s5 where
    mk: "os_MkdirAll w dir (init fs) = (None, s1)" and
    ls: "GetArtifactsForBuild w (New ?tok) ?app ?build s1 = (Inr arts, s2)" and
    dl: "DownloadArtifact w (New ?tok) ?app ?build slug s2 = (Inr reader, s3)" and
    cr: "os_Create w path s3 = (Inr fl, s4)" and
    cp: "io_Copy w fl reader s4 = ((n, None), s5)" and
    st: "st = s5\<lparr>stdout := stdout s5 @ ''done, ['' @ Itoa n @ '' byte] downloaded\<newline>''\<rparr>"
    unfolding mainE_def Let_def dir_def path_def
    by (auto split: if_splits prod.splits sum.splits option.splits)
  from mk have n1: "nreq s1 = 0" and o1: "stdout s1 = []"
    by (auto simp: os_MkdirAll_def emit_def init_def split: option.splits)
  from GetArtifactsForBuild_Inr [OF ls] GetArtifactsForBuild_frame [OF ls] n1 o1
  have n2: "nreq s2 = 1" and o2: "stdout s2 = []"
    by auto
  from DownloadArtifact_Inr [OF dl] n2 obtain url resp evs where
    rt: "RoundTrip w 2 DefaultClient \<lparr>Method = ''GET'', URL = url, Header = []\<rparr> = Inr resp" and
    rd: "reader = (Body resp)\<lparr>bid := 2\<rparr>" and
    t3: "trace s3 = trace s2 @ evs @
           [HttpSend 2 DefaultClient \<lparr>Method = ''GET'', URL = url, Header = []\<rparr>, BodyOpen 2]"
    by (auto simp: numeral_2_eq_2)
  from DownloadArtifact_frame [OF dl] o2 have o3: "stdout s3 = []"
    by simp
  from cr have fl: "fl = \<lparr>fname = path\<rparr>" and
    s4: "s4 = emit (Create path) (s3\<lparr>files := (files s3)(path \<mapsto> [])\<rparr>)"
    by (auto simp: os_Create_def split: option.splits)
  from cp fl rd have se: "stream_err (Body resp) = None" and
    n: "n = int (length (stream (Body resp)))" and
    s5: "s5 = file_append path (stream (Body resp)) (emit (BodyCopy 2 path) s4)"
    by (auto simp: io_Copy_def Let_def split: option.splits prod.splits)
  have "files st path = Some (stream (Body resp))"
    by (simp add: st s5 s4 file_append_def emit_def)
  moreover have "stdout st = ''done, ['' @ Itoa (int (length (stream (Body resp)))) @ '' byte] downloaded\<newline>''"
    by (simp add: st s5 s4 file_append_def emit_def o3 n)
  moreover have "trace st = trace s3 @ [Create path, BodyCopy 2 path]"
    by (simp add: st s5 s4 file_append_def emit_def)
  ultimately show ?thesis
    using rt se t3 by (intro exI [of _ url] exI [of _ resp] exI [of _ "trace s2 @ evs"]) simp
qed


lemma successful_run_leaves_body_open:
  assumes "main w fs = (0, st)"
  shows "BodyOpen 2 \<in> set (trace st) \<and> BodyClose 2 \<notin> set (trace st)"
proof -
  from assms have m: "mainE w (init fs) = (None, st)"
    by (auto simp: main_def split: prod.splits option.splits)
  from mainE_success [OF m] have "BodyOpen 2 \<in> set (trace st)"
    by auto
  moreover from mainE_closes_only_get_bodies [OF m] have "BodyClose 2 \<notin> set (trace st)"
    by auto
  ultimately show ?thesis ..
qed

subsection \<open>A step that reports an error ends the run with status 1\<close>

text \<open>
  The steps of \<^verbatim>\<open>mainE\<close> once the variables are set, one lemma for each step that can
  report an error: making the directory; the listing; the download, which is the detail request
  and then the request to the expiring URL; creating the file; copying the stream into it.
\<close>

lemma main_reports_mainE_error:
  assumes m: "mainE w (init fs) = (Some e, st)"
  shows "exits_with_error w fs e"
proof -
  from mainE_failure_stdout [OF m] have "stdout st = []"
    by (simp add: init_def)
  with m show ?thesis
    by (simp add: exits_with_error_def main_def)
qed

lemma mkdir_failure_exits_1:
  assumes "env_set w"
    and "MkdirAll_err w (if Getenv w ''DOWNLOAD_DIR'' = [] then ''.'' else Getenv w ''DOWNLOAD_DIR'') = Some e"
  shows "exits_with_error w fs (PathError e)"
proof -
  from assms have "fst (mainE w (init fs)) = Some (PathError e)"
    by (simp add: mainE_def Let_def env_set_def os_MkdirAll_def)
  then show ?thesis
    by (metis main_reports_mainE_error prod.collapse)
qed

lemma listing_failure_exits_1:
  fixes w :: world
  defines "dir \<equiv> (if Getenv w ''DOWNLOAD_DIR'' = [] then ''.'' else Getenv w ''DOWNLOAD_DIR'')"
  assumes "env_set w" and "MkdirAll_err w dir = None"
    and "GetArtifactsForBuild w (New (Getenv w ''API_AUTH_TOKEN'')) (Getenv w ''APP_SLUG'')
           (Getenv w ''WORKFLOW_SLUG_ID'') (emit (MkdirAll dir) (init fs)) = (Inl e, st)"
  shows "exits_with_error w fs e"
proof -
  from assms have "mainE w (init fs) = (Some e, st)"
    by (simp add: mainE_def Let_def env_set_def os_MkdirAll_def)
  then show ?thesis
    by (rule main_reports_mainE_error)
qed

lemma download_failure_exits_1:
  fixes w :: world
  defines "dir \<equiv> (if Getenv w ''DOWNLOAD_DIR'' = [] then ''.'' else Getenv w ''DOWNLOAD_DIR'')"
  assumes "env_set w" and "MkdirAll_err w dir = None"
    and "GetArtifactsForBuild w (New (Getenv w ''API_AUTH_TOKEN'')) (Getenv w ''APP_SLUG'')
           (Getenv w ''WORKFLOW_SLUG_ID'') (emit (MkdirAll dir) (init fs)) = (Inr arts, st)"
    and "Mapping.lookup (artifactSlugMap (Data arts)) (Getenv w ''ARTIFACT_NAME'') = Some slug"
    and "DownloadArtifact w (New (Getenv w ''API_AUTH_TOKEN'')) (Getenv w ''APP_SLUG'')
           (Getenv w ''WORKFLOW_SLUG_ID'') slug st = (Inl e, st')"
  shows "exits_with_error w fs e"
proof -
  from assms have "mainE w (init fs) = (Some e, st')"
    by (simp add: mainE_def Let_def env_set_def os_MkdirAll_def)
  then show ?thesis
    by (rule main_reports_mainE_error)
qed

lemma create_failure_exits_1:
  fixes w :: world
  defines "dir \<equiv> (if Getenv w ''DOWNLOAD_DIR'' = [] then ''.'' else Getenv w ''DOWNLOAD_DIR'')"
  assumes "env_set w" and "MkdirAll_err w dir = None"
    and "GetArtifactsForBuild w (New (Getenv w ''API_AUTH_TOKEN'')) (Getenv w ''APP_SLUG'')
           (Getenv w ''WORKFLOW_SLUG_ID'') (emit (MkdirAll dir) (init fs)) = (Inr arts, st)"
    and "Mapping.lookup (artifactSlugMap (Data arts)) (Getenv w ''ARTIFACT_NAME'') = Some slug"
    and "DownloadArtifact w (New (Getenv w ''API_AUTH_TOKEN'')) (Getenv w ''APP_SLUG'')
           (Getenv w ''WORKFLOW_SLUG_ID'') slug st = (Inr reader, st')"
    and "Create_err w (filepath_Join w dir (Getenv w ''ARTIFACT_NAME'')) = Some e"
  shows "exits_with_error w fs (PathError e)"
proof -
  from assms have "mainE w (init fs) = (Some (PathError e), st')"
    by (simp add: mainE_def Let_def env_set_def os_MkdirAll_def os_Create_def)
  then show ?thesis
    by (rule main_reports_mainE_error)
qed

lemma copy_failure_exits_1:
  fixes w :: world
  defines "dir \<equiv> (if Getenv w ''DOWNLOAD_DIR'' = [] then ''.'' else Getenv w ''DOWNLOAD_DIR'')"
  defines "path \<equiv> filepath_Join w dir (Getenv w ''ARTIFACT_NAME'')"
  assumes "env_set w" and "MkdirAll_err w dir = None"
    and "GetArtifactsForBuild w (New (Getenv w ''API_AUTH_TOKEN'')) (Getenv w ''APP_SLUG'')
           (Getenv w ''WORKFLOW_SLUG_ID'') (emit (MkdirAll dir) (init fs)) = (Inr arts, st)"
    and "Mapping.lookup (artifactSlugMap (Data arts)) (Getenv w ''ARTIFACT_NAME'') = Some slug"
    and "DownloadArtifact w (New (Getenv w ''API_AUTH_TOKEN'')) (Getenv w ''APP_SLUG'')
           (Getenv w ''WORKFLOW_SLUG_ID'') slug st = (Inr reader, st')"
    and "Create_err w path = None"
    and "(\<exists>k. Write_err w path (stream reader) = Some (k, e)) \<or>
         (Write_err w path (stream reader) = None \<and> stream_err reader = Some e)"
  shows "exits_with_error w fs (CopyError e)"
proof -
  from assms have "fst (mainE w (init fs)) = Some (CopyError e)"
    by (auto simp: mainE_def Let_def env_set_def os_MkdirAll_def os_Create_def io_Copy_def)
  then show ?thesis
    by (metis main_reports_mainE_error prod.collapse)
qed

lemma missing_env_exits_1:
  assumes "find (\<lambda>k. Getenv w k = []) required_env = Some k"
  shows "exits_with_error w fs (errNoEnv k)"
proof -
  from assms have "mainE w (init fs) = (Some (errNoEnv k), init fs)"
    by (auto simp: required_env_def mainE_def Let_def split: if_splits)
  then show ?thesis
    by (rule main_reports_mainE_error)
qed

section \<open>The claims\<close>

subsection \<open>C1: the map from titles to slugs\<close>

text \<open>
  Claim C1. For a listing with entries \<open>ds\<close>, the map that \<^verbatim>\<open>mainE\<close> builds has exactly the
  titles that occur in \<open>ds\<close> as its keys, and each title is mapped to the slug of the last
  entry of \<open>ds\<close> that bears it: a later entry overwrites an earlier one of the same title.
\<close>

theorem artifactSlugMap_last_wins:
  "Mapping.keys (artifactSlugMap ds) = Title ` set ds \<and>
   (\<forall>t. Mapping.lookup (artifactSlugMap ds) t =
      (case filter (\<lambda>a. Title a = t) ds of
         [] \<Rightarrow> None
       | x # xs \<Rightarrow> Some (Slug (last (x # xs)))))"
  by (simp add: artifactSlugMap_def loop_lookup loop_keys split: list.splits)

subsection \<open>C2: the name is not in the listing\<close>

text \<open>
  Claim C2. When the four variables are set, the directory is made, the listing arrives and its
  map of titles has no entry for the configured name, the run exits with status 1. Standard
  output holds the message \<^verbatim>\<open>unable to find artifact with name (<name>)\<close> followed by the
  serialized map, in which every pair of the map appears as \<^verbatim>\<open>"title": "slug"\<close>; and the
  trace of the run ends with the closing of the listing's body: the listing is the only request
  sent, no download is attempted.
\<close>

theorem missing_artifact_fails:
  fixes w :: world and fs :: "string \<rightharpoonup> string"
  defines "tok \<equiv> Getenv w ''API_AUTH_TOKEN''" and "app \<equiv> Getenv w ''APP_SLUG''"
    and "build \<equiv> Getenv w ''WORKFLOW_SLUG_ID''" and "name \<equiv> Getenv w ''ARTIFACT_NAME''"
    and "dir \<equiv> (if Getenv w ''DOWNLOAD_DIR'' = [] then ''.'' else Getenv w ''DOWNLOAD_DIR'')"
  assumes env: "tok \<noteq> []" "app \<noteq> []" "build \<noteq> []" "name \<noteq> []"
    and mk: "MkdirAll_err w dir = None"
    and ls: "GetArtifactsForBuild w (New tok) app build (emit (MkdirAll dir) (init fs)) = (Inr arts, st)"
    and missing: "Mapping.lookup (artifactSlugMap (Data arts)) name = None"
  shows "\<exists>keys.
           fst (main w fs) = 1 \<and>
           stdout (snd (main w fs)) =
             ''Error: unable to find artifact with name ('' @ name @ ''), available artifacts:\<newline>''
               @ keys @ ''\<newline>'' \<and>
           sublist (''unable to find artifact with name ('' @ name @ '')'') (stdout (snd (main w fs))) \<and>
           (\<forall>t sl. Mapping.lookup (artifactSlugMap (Data arts)) t = Some sl \<longrightarrow>
                sublist (json_string w t @ '': '' @ json_string w sl) keys) \<and>
           trace (snd (main w fs)) =
             [MkdirAll dir,
              HttpSend 0 (httpClient (New tok))
                \<lparr>Method = ''GET'',
                 URL = domain @ ''/'' @ apiVersion @ ''/'' @ ''apps/'' @ app @ ''/builds/'' @ build @ ''/artifacts'',
                 Header = [(''Authorization'', ''token '' @ tok)]\<rparr>,
              BodyOpen 0, BodyDecode 0, BodyClose 0]"
proof -
  obtain keys where k: "json_MarshalIndent w (artifactSlugMap (Data arts)) = Inr keys"
    using marshal_total by blast
  let ?msg = "''unable to find artifact with name ('' @ name @ ''), available artifacts:\<newline>'' @ keys"
  have m: "mainE w (init fs) = (Some (Errorf ?msg), st)"
    using env mk ls missing k
    unfolding mainE_def Let_def tok_def app_def build_def name_def dir_def
    by (simp add: os_MkdirAll_def)
  have t: "trace st =
             [MkdirAll dir,
              HttpSend 0 (httpClient (New tok))
                \<lparr>Method = ''GET'',
                 URL = domain @ ''/'' @ apiVersion @ ''/'' @ ''apps/'' @ app @ ''/builds/'' @ build @ ''/artifacts'',
                 Header = [(''Authorization'', ''token '' @ tok)]\<rparr>,
              BodyOpen 0, BodyDecode 0, BodyClose 0]"
    using GetArtifactsForBuild_Inr [OF ls] by (simp add: emit_def init_def New_def)
  have o: "stdout st = []"
    using GetArtifactsForBuild_frame [OF ls] by (simp add: emit_def init_def)
  have out: "stdout (snd (main w fs)) = ''Error: '' @ ?msg @ ''\<newline>''"
    using m o by (simp add: main_def)
  have c: "fst (main w fs) = 1"
    using m by (simp add: main_def)
  have tr: "trace (snd (main w fs)) = trace st"
    using m by (simp add: main_def)
  have sub: "sublist (''unable to find artifact with name ('' @ name @ '')'') (stdout (snd (main w fs)))"
  proof -
    have "stdout (snd (main w fs)) = ''Error: '' @ (''unable to find artifact with name ('' @ name @ '')'')
            @ ('', available artifacts:\<newline>'' @ keys @ ''\<newline>'')"
      by (simp add: out)
    then show ?thesis
      by (metis sublist_appendI)
  qed
  have pairs: "\<forall>t sl. Mapping.lookup (artifactSlugMap (Data arts)) t = Some sl \<longrightarrow>
                sublist (json_string w t @ '': '' @ json_string w sl) keys"
    using marshal_contains [of "Data arts" _ _ w] k by auto
  show ?thesis
    using c out sub pairs tr t by (intro exI [of _ keys]) simp
qed

theorem missing_artifact_fails_witness:
  "Mapping.lookup (artifactSlugMap (Data sample_listing)) ''missing.ipa'' = None \<and>
   Mapping.lookup (artifactSlugMap (Data sample_listing)) ''app.apk'' = Some ''abc123'' \<and>
   fst (main (sample_world (sample_env ''missing.ipa'') 200 200) Map.empty) = 1 \<and>
   stdout (snd (main (sample_world (sample_env ''missing.ipa'') 200 200) Map.empty)) =
     ''Error: unable to find artifact with name (missing.ipa), available artifacts:\<newline>{\<newline>  ''
       @ [CHR 0x22] @ ''app.apk'' @ [CHR 0x22] @ '': '' @ [CHR 0x22] @ ''abc123'' @ [CHR 0x22]
       @ ''\<newline>}\<newline>'' \<and>
   trace (snd (main (sample_world (sample_env ''missing.ipa'') 200 200) Map.empty)) =
     [MkdirAll ''.'',
      HttpSend 0 \<lparr>Timeout = 20000000000\<rparr>
        \<lparr>Method = ''GET'', URL = ''https://api.bitrise.io/v0.1/apps/app1/builds/build7/artifacts'',
         Header = [(''Authorization'', ''token secret'')]\<rparr>,
      BodyOpen 0, BodyDecode 0, BodyClose 0]"
proof -
  let ?w = "sample_world (sample_env ''missing.ipa'') 200 200"
  let ?st = "snd (GetArtifactsForBuild ?w (New ''secret'') ''app1'' ''build7''
                    (emit (MkdirAll ''.'') (init Map.empty)))"
  have e: "Getenv ?w ''API_AUTH_TOKEN'' = ''secret''" "Getenv ?w ''APP_SLUG'' = ''app1''"
    "Getenv ?w ''WORKFLOW_SLUG_ID'' = ''build7''" "Getenv ?w ''ARTIFACT_NAME'' = ''missing.ipa''"
    "Getenv ?w ''DOWNLOAD_DIR'' = []"
    by (simp_all add: sample_defs)
  have ls: "GetArtifactsForBuild ?w (New ''secret'') ''app1'' ''build7''
              (emit (MkdirAll ''.'') (init Map.empty)) = (Inr sample_listing, ?st)"
    by (simp add: run_defs sample_defs)
  have missing: "Mapping.lookup (artifactSlugMap (Data sample_listing)) ''missing.ipa'' = None"
    by (simp add: artifactSlugMap_def sample_listing_def lookup_update')
  have present: "Mapping.lookup (artifactSlugMap (Data sample_listing)) ''app.apk'' = Some ''abc123''"
    by (simp add: artifactSlugMap_def sample_listing_def lookup_update')
  have mk: "MkdirAll_err ?w ''.'' = None"
    by (simp add: sample_defs)
  from missing_artifact_fails [where w = ?w and fs = Map.empty and arts = sample_listing and st = ?st]
    e ls missing mk
  have "fst (main ?w Map.empty) = 1"
    by auto
  then show ?thesis
    using missing present by (simp add: run_defs sample_defs lookup_update')
qed

subsection \<open>C3: a status outside 200..299\<close>

text \<open>
  Claim C3. When \<^verbatim>\<open>GetArtifactsForBuild\<close> or \<^verbatim>\<open>GetArtifactDetails\<close> receives a response
  whose status code is below 200 or at least 300, it returns the status error: an error built
  by \<^verbatim>\<open>fmt.Errorf\<close>, whose message holds the status code, the app slug and the build slug
  (the message prints the app slug after the label \<^verbatim>\<open>build_slug\<close> and the build slug after
  \<^verbatim>\<open>app_slug\<close>, as the source does). After the response arrived the only event is the closing
  of its body, and the whole call records no decoding: the error is never a decode error.
\<close>

theorem non_2xx_short_circuits:
  assumes bad: "StatusCode resp < 200 \<or> 300 \<le> StatusCode resp"
  shows "(get w c (''apps/'' @ app @ ''/builds/'' @ build @ ''/artifacts'') s = (Inr resp, s') \<longrightarrow>
            (\<exists>msg s''. GetArtifactsForBuild w c app build s = (Inl (Errorf msg), s'') \<and>
               msg = ''failed to get artifacts with status code ('' @ Itoa (StatusCode resp)
                 @ '') for [build_slug: '' @ app @ '', app_slug: '' @ build @ '']'' \<and>
               sublist (Itoa (StatusCode resp)) msg \<and> sublist app msg \<and> sublist build msg \<and>
               events_since s' s'' = [BodyClose (bid (Body resp))] \<and>
               (\<forall>k. BodyDecode k \<notin> set (events_since s s'')))) \<and>
         (get w c (''apps/'' @ app @ ''/builds/'' @ build @ ''/artifacts/'' @ slug) s = (Inr resp, s') \<longrightarrow>
            (\<exists>msg s''. GetArtifactDetails w c app build slug s = (Inl (Errorf msg), s'') \<and>
               msg = ''failed to get artifact details with status code ('' @ Itoa (StatusCode resp)
                 @ '') for [build_slug: '' @ app @ '', app_slug: '' @ build @ '']'' \<and>
               sublist (Itoa (StatusCode resp)) msg \<and> sublist app msg \<and> sublist build msg \<and>
               events_since s' s'' = [BodyClose (bid (Body resp))] \<and>
               (\<forall>k. BodyDecode k \<notin> set (events_since s s''))))"
proof (intro conjI impI)
  assume g: "get w c (''apps/'' @ app @ ''/builds/'' @ build @ ''/artifacts'') s = (Inr resp, s')"
  let ?msg = "''failed to get artifacts with status code ('' @ Itoa (StatusCode resp)
                 @ '') for [build_slug: '' @ app @ '', app_slug: '' @ build @ '']''"
  have r: "GetArtifactsForBuild w c app build s = (Inl (Errorf ?msg), responseBodyCloser resp s')"
    using bad g by (auto simp: GetArtifactsForBuild_def)
  have t: "\<exists>rq. trace s' = trace s @ [HttpSend (nreq s) (httpClient c) rq, BodyOpen (nreq s)]"
    using get_Inr [OF g] by auto
  have e1: "events_since s' (responseBodyCloser resp s') = [BodyClose (bid (Body resp))]"
    by (simp add: events_since_def closer_trace)
  have e2: "\<forall>k. BodyDecode k \<notin> set (events_since s (responseBodyCloser resp s'))"
    using t by (auto simp: events_since_def closer_trace)
  show "\<exists>msg s''. GetArtifactsForBuild w c app build s = (Inl (Errorf msg), s'') \<and>
               msg = ?msg \<and>
               sublist (Itoa (StatusCode resp)) msg \<and> sublist app msg \<and> sublist build msg \<and>
               events_since s' s'' = [BodyClose (bid (Body resp))] \<and>
               (\<forall>k. BodyDecode k \<notin> set (events_since s s''))"
    using r e1 e2
      status_msg_contains [of "Itoa (StatusCode resp)" "''failed to get artifacts with status code (''"
        "'') for [build_slug: ''" app "'', app_slug: ''" build "'']''"]
    by blast
next
  assume g: "get w c (''apps/'' @ app @ ''/builds/'' @ build @ ''/artifacts/'' @ slug) s = (Inr resp, s')"
  let ?msg = "''failed to get artifact details with status code ('' @ Itoa (StatusCode resp)
                 @ '') for [build_slug: '' @ app @ '', app_slug: '' @ build @ '']''"
  have r: "GetArtifactDetails w c app build slug s = (Inl (Errorf ?msg), responseBodyCloser resp s')"
    using bad g by (auto simp: GetArtifactDetails_def)
  have t: "\<exists>rq. trace s' = trace s @ [HttpSend (nreq s) (httpClient c) rq, BodyOpen (nreq s)]"
    using get_Inr [OF g] by auto
  have e1: "events_since s' (responseBodyCloser resp s') = [BodyClose (bid (Body resp))]"
    by (simp add: events_since_def closer_trace)
  have e2: "\<forall>k. BodyDecode k \<notin> set (events_since s (responseBodyCloser resp s'))"
    using t by (auto simp: events_since_def closer_trace)
  show "\<exists>msg s''. GetArtifactDetails w c app build slug s = (Inl (Errorf msg), s'') \<and>
               msg = ?msg \<and>
               sublist (Itoa (StatusCode resp)) msg \<and> sublist app msg \<and> sublist build msg \<and>
               events_since s' s'' = [BodyClose (bid (Body resp))] \<and>
               (\<forall>k. BodyDecode k \<notin> set (events_since s s''))"
    using r e1 e2
      status_msg_contains [of "Itoa (StatusCode resp)" "''failed to get artifact details with status code (''"
        "'') for [build_slug: ''" app "'', app_slug: ''" build "'']''"]
    by blast
qed

theorem non_2xx_short_circuits_witness:
  "fst (GetArtifactsForBuild (sample_world (sample_env ''app.apk'') 404 200) (New ''secret'')
         ''app1'' ''build7'' (init Map.empty)) =
     Inl (Errorf ''failed to get artifacts with status code (404) for [build_slug: app1, app_slug: build7]'') \<and>
   trace (snd (GetArtifactsForBuild (sample_world (sample_env ''app.apk'') 404 200) (New ''secret'')
         ''app1'' ''build7'' (init Map.empty))) =
     [HttpSend 0 \<lparr>Timeout = 20000000000\<rparr>
        \<lparr>Method = ''GET'', URL = ''https://api.bitrise.io/v0.1/apps/app1/builds/build7/artifacts'',
         Header = [(''Authorization'', ''token secret'')]\<rparr>,
      BodyOpen 0, BodyClose 0] \<and>
   fst (GetArtifactDetails (sample_world (sample_env ''app.apk'') 200 503) (New ''secret'')
         ''app1'' ''build7'' ''abc123'' (init Map.empty)) =
     Inl (Errorf ''failed to get artifact details with status code (503) for [build_slug: app1, app_slug: build7]'') \<and>
   trace (snd (GetArtifactDetails (sample_world (sample_env ''app.apk'') 200 503) (New ''secret'')
         ''app1'' ''build7'' ''abc123'' (init Map.empty))) =
     [HttpSend 0 \<lparr>Timeout = 20000000000\<rparr>
        \<lparr>Method = ''GET'', URL = ''https://api.bitrise.io/v0.1/apps/app1/builds/build7/artifacts/abc123'',
         Header = [(''Authorization'', ''token secret'')]\<rparr>,
      BodyOpen 0, BodyClose 0]"
proof -
  let ?w = "sample_world (sample_env ''app.apk'') 404 200"
  let ?v = "sample_world (sample_env ''app.apk'') 200 503"
  let ?s = "init Map.empty"
  let ?s' = "snd (get ?w (New ''secret'') (''apps/'' @ ''app1'' @ ''/builds/'' @ ''build7'' @ ''/artifacts'') ?s)"
  let ?t' = "snd (get ?v (New ''secret'')
                (''apps/'' @ ''app1'' @ ''/builds/'' @ ''build7'' @ ''/artifacts/'' @ ''abc123'') ?s)"
  have bad1: "StatusCode (sample_response 404 ''listing'') < 200 \<or>
              300 \<le> StatusCode (sample_response 404 ''listing'')"
    by (simp add: sample_response_def)
  have bad2: "StatusCode (sample_response 503 ''detail'') < 200 \<or>
              300 \<le> StatusCode (sample_response 503 ''detail'')"
    by (simp add: sample_response_def)
  have g1: "get ?w (New ''secret'') (''apps/'' @ ''app1'' @ ''/builds/'' @ ''build7'' @ ''/artifacts'') ?s
             = (Inr (sample_response 404 ''listing''), ?s')"
    by (simp add: run_defs sample_defs)
  have g2: "get ?v (New ''secret'')
              (''apps/'' @ ''app1'' @ ''/builds/'' @ ''build7'' @ ''/artifacts/'' @ ''abc123'') ?s
             = (Inr (sample_response 503 ''detail''), ?t')"
    by (simp add: run_defs sample_defs)
  from non_2xx_short_circuits [OF bad1, where w = ?w and c = "New ''secret''" and app = "''app1''"
      and build = "''build7''" and s = ?s and s' = ?s' and slug = "''abc123''"] g1
  have l: "fst (GetArtifactsForBuild ?w (New ''secret'') ''app1'' ''build7'' ?s) =
     Inl (Errorf ''failed to get artifacts with status code (404) for [build_slug: app1, app_slug: build7]'')"
    by (simp add: run_defs sample_defs Itoa_def digits.simps)
  from non_2xx_short_circuits [OF bad2, where w = ?v and c = "New ''secret''" and app = "''app1''"
      and build = "''build7''" and s = ?s and s' = ?t' and slug = "''abc123''"] g2
  have d: "fst (GetArtifactDetails ?v (New ''secret'') ''app1'' ''build7'' ''abc123'' ?s) =
     Inl (Errorf ''failed to get artifact details with status code (503) for [build_slug: app1, app_slug: build7]'')"
    by (simp add: run_defs sample_defs Itoa_def digits.simps)
  show ?thesis
    using l d by (simp add: run_defs sample_defs)
qed

subsection \<open>C4: a missing variable\<close>

text \<open>
  Claim C4. When one of \<^verbatim>\<open>API_AUTH_TOKEN\<close>, \<^verbatim>\<open>APP_SLUG\<close>, \<^verbatim>\<open>WORKFLOW_SLUG_ID\<close>,
  \<^verbatim>\<open>ARTIFACT_NAME\<close> is empty, \<^verbatim>\<open>mainE\<close> returns the configuration error that names the
  first of them that is empty, and it returns in the state it started in: no request was sent,
  no event recorded, no file changed.
\<close>

theorem missing_env_stops_first:
  assumes "find (\<lambda>k. Getenv w k = []) required_env = Some k"
  shows "mainE w s = (Some (Errorf (''environment variable ('' @ k @ '') is not set'')), s) \<and>
         events_since s (snd (mainE w s)) = [] \<and>
         nreq (snd (mainE w s)) = nreq s \<and>
         files (snd (mainE w s)) = files s"
proof -
  from assms have "mainE w s = (Some (Errorf (''environment variable ('' @ k @ '') is not set'')), s)"
    by (auto simp: required_env_def mainE_def errNoEnv_def Let_def split: if_splits)
  then show ?thesis
    by (simp add: events_since_def)
qed

theorem missing_env_stops_first_witness:
  "find (\<lambda>k. Getenv (sample_world (\<lambda>k. if k = ''API_AUTH_TOKEN'' then ''secret'' else []) 200 200) k = [])
     required_env = Some ''APP_SLUG'' \<and>
   mainE (sample_world (\<lambda>k. if k = ''API_AUTH_TOKEN'' then ''secret'' else []) 200 200) (init Map.empty) =
     (Some (Errorf ''environment variable (APP_SLUG) is not set''), init Map.empty)"
proof -
  let ?w = "sample_world (\<lambda>k. if k = ''API_AUTH_TOKEN'' then ''secret'' else []) 200 200"
  have h: "find (\<lambda>k. Getenv ?w k = []) required_env = Some ''APP_SLUG''"
    by (simp add: required_env_def sample_world_def)
  from missing_env_stops_first [OF h, of "init Map.empty"] h show ?thesis
    by simp
qed

subsection \<open>C5: the successful run\<close>

text \<open>
  Claim C5. When the run exits with status 0, the third request of the run is the download, a
  GET on the default client, and its response body ended without an error; the file whose path
  is \<^verbatim>\<open>filepath.Join\<close> of the download directory (\<^verbatim>\<open>.\<close> when \<^verbatim>\<open>DOWNLOAD_DIR\<close> is
  empty) and the artifact name was created and holds exactly the bytes of that body, whatever
  it held before; and standard output is \<^verbatim>\<open>done, [N byte] downloaded\<close> with \<open>N\<close> the
  number of those bytes.
\<close>

theorem successful_run_writes_file:
  fixes w :: world and fs :: "string \<rightharpoonup> string"
  defines "dir \<equiv> (if Getenv w ''DOWNLOAD_DIR'' = [] then ''.'' else Getenv w ''DOWNLOAD_DIR'')"
  defines "path \<equiv> filepath_Join w dir (Getenv w ''ARTIFACT_NAME'')"
  assumes ok: "main w fs = (0, st)"
  shows "\<exists>url resp.
           HttpSend 2 DefaultClient \<lparr>Method = ''GET'', URL = url, Header = []\<rparr> \<in> set (trace st) \<and>
           RoundTrip w 2 DefaultClient \<lparr>Method = ''GET'', URL = url, Header = []\<rparr> = Inr resp \<and>
           stream_err (Body resp) = None \<and>
           Create path \<in> set (trace st) \<and>
           BodyCopy 2 path \<in> set (trace st) \<and>
           files st path = Some (stream (Body resp)) \<and>
           stdout st = ''done, ['' @ Itoa (int (length (stream (Body resp)))) @ '' byte] downloaded\<newline>''"
proof -
  from ok have m: "mainE w (init fs) = (None, st)"
    by (auto simp: main_def split: prod.splits option.splits)
  from mainE_success [OF m] show ?thesis
    unfolding dir_def path_def by auto
qed

theorem successful_run_writes_file_witness:
  "fst (main (sample_world (sample_env ''app.apk'') 200 200) [''app.apk'' \<mapsto> ''stale'']) = 0 \<and>
   filepath_Join (sample_world (sample_env ''app.apk'') 200 200) ''.'' ''app.apk'' = ''app.apk'' \<and>
   files (snd (main (sample_world (sample_env ''app.apk'') 200 200) [''app.apk'' \<mapsto> ''stale'']))
     ''app.apk'' = Some (replicate 1024 (CHR ''x'')) \<and>
   stdout (snd (main (sample_world (sample_env ''app.apk'') 200 200) [''app.apk'' \<mapsto> ''stale''])) =
     ''done, [1024 byte] downloaded\<newline>''"
proof -
  let ?w = "sample_world (sample_env ''app.apk'') 200 200"
  let ?fs = "[''app.apk'' \<mapsto> ''stale'']"
  let ?st = "snd (main ?w ?fs)"
  have c: "fst (main ?w ?fs) = 0"
    by (simp add: run_defs sample_defs)
  then have ok: "main ?w ?fs = (0, ?st)"
    by (metis prod.collapse)
  have e: "(if Getenv ?w ''DOWNLOAD_DIR'' = [] then ''.'' else Getenv ?w ''DOWNLOAD_DIR'') = ''.''"
    "Getenv ?w ''ARTIFACT_NAME'' = ''app.apk''"
    "filepath_Join ?w ''.'' ''app.apk'' = ''app.apk''"
    by (simp_all add: sample_defs)
  from successful_run_writes_file [OF ok]
  have "\<exists>url resp.
      HttpSend 2 DefaultClient \<lparr>Method = ''GET'', URL = url, Header = []\<rparr> \<in> set (trace ?st) \<and>
      RoundTrip ?w 2 DefaultClient \<lparr>Method = ''GET'', URL = url, Header = []\<rparr> = Inr resp \<and>
      files ?st ''app.apk'' = Some (stream (Body resp)) \<and>
      stdout ?st = ''done, ['' @ Itoa (int (length (stream (Body resp)))) @ '' byte] downloaded\<newline>''"
    unfolding e by blast
  then obtain url resp where
    r1: "HttpSend 2 DefaultClient \<lparr>Method = ''GET'', URL = url, Header = []\<rparr> \<in> set (trace ?st)" and
    r2: "RoundTrip ?w 2 DefaultClient \<lparr>Method = ''GET'', URL = url, Header = []\<rparr> = Inr resp" and
    r3: "files ?st ''app.apk'' = Some (stream (Body resp))" and
    r4: "stdout ?st = ''done, ['' @ Itoa (int (length (stream (Body resp)))) @ '' byte] downloaded\<newline>''"
    by blast
  from r1 have "url = ''https://files.example/app.apk?sig=1''"
    by (simp add: run_defs sample_defs)
  with r2 have "stream (Body resp) = replicate 1024 (CHR ''x'')"
    by (auto simp: sample_defs)
  with r3 r4 c e show ?thesis
    by (simp add: Itoa_def digits.simps)
qed

subsection \<open>C6: the requests of \<^verbatim>\<open>Client.get\<close>\<close>

text \<open>
  Claim C6. Every request that \<^verbatim>\<open>Client.get\<close> sends goes to the URL made of the fixed
  domain, the fixed API version and the caller's endpoint, joined by \<^verbatim>\<open>/\<close>; it has an
  \<^verbatim>\<open>Authorization\<close> header whose value contains the token; and it is sent on the client's
  own transport, whose timeout is twenty seconds for a client made by \<^verbatim>\<open>New\<close>.
\<close>

theorem get_request_shape:
  assumes "HttpSend n hc req \<in> set (events_since s (snd (get w c endpoint s)))"
  shows "URL req = domain @ ''/'' @ apiVersion @ ''/'' @ endpoint \<and>
         domain = ''https://api.bitrise.io'' \<and> apiVersion = ''v0.1'' \<and>
         (\<exists>v. (''Authorization'', v) \<in> set (Header req) \<and> sublist (authToken c) v) \<and>
         hc = httpClient c \<and>
         Timeout (httpClient (New tok)) = 20 * 1000000000"
proof -
  from assms have req:
    "req = \<lparr>Method = ''GET'', URL = domain @ ''/'' @ apiVersion @ ''/'' @ endpoint,
            Header = [(''Authorization'', ''token '' @ authToken c)]\<rparr>"
    and hc: "hc = httpClient c"
    by (auto simp: get_events split: option.splits sum.splits)
  have "sublist (authToken c) (''token '' @ authToken c)"
    by (rule sublist_append_leftI)
  then have "\<exists>v. (''Authorization'', v) \<in> set (Header req) \<and> sublist (authToken c) v"
    unfolding req by (intro exI [of _ "''token '' @ authToken c"]) simp
  then show ?thesis
    using hc by (simp add: req New_def Second_def domain_def apiVersion_def)
qed

theorem get_request_shape_witness:
  "HttpSend 0 \<lparr>Timeout = 20000000000\<rparr>
     \<lparr>Method = ''GET'', URL = ''https://api.bitrise.io/v0.1/apps/app1/builds/build7/artifacts'',
      Header = [(''Authorization'', ''token secret'')]\<rparr>
     \<in> set (events_since (init Map.empty)
          (snd (get (sample_world (sample_env ''app.apk'') 200 200) (New ''secret'')
                  ''apps/app1/builds/build7/artifacts'' (init Map.empty)))) \<and>
   domain @ ''/'' @ apiVersion @ ''/'' @ ''apps/app1/builds/build7/artifacts'' =
     ''https://api.bitrise.io/v0.1/apps/app1/builds/build7/artifacts'' \<and>
   sublist ''secret'' ''token secret''"
proof -
  let ?w = "sample_world (sample_env ''app.apk'') 200 200"
  let ?req = "\<lparr>Method = ''GET'', URL = ''https://api.bitrise.io/v0.1/apps/app1/builds/build7/artifacts'',
      Header = [(''Authorization'', ''token secret'')]\<rparr>"
  have h: "HttpSend 0 \<lparr>Timeout = 20000000000\<rparr> ?req
     \<in> set (events_since (init Map.empty)
          (snd (get ?w (New ''secret'') ''apps/app1/builds/build7/artifacts'' (init Map.empty))))"
    by (simp add: run_defs sample_defs)
  from get_request_shape [OF h] h show ?thesis
    by (auto simp: New_def)
qed

subsection \<open>C7: the download\<close>

text \<open>
  Claim C7. \<^verbatim>\<open>DownloadArtifact\<close> first calls \<^verbatim>\<open>GetArtifactDetails\<close>. When that fails it
  returns the same error in the same state, so nothing more is sent. When it succeeds, and the
  expiring URL parses and is answered, the only events added are one GET to that URL on the
  default client with an empty header (no \<^verbatim>\<open>Authorization\<close>) and the opening of the response
  body; that body is returned, and it is not closed.
\<close>

theorem DownloadArtifact_steps:
  "(GetArtifactDetails w c app build slug s = (Inl err, s') \<longrightarrow>
      DownloadArtifact w c app build slug s = (Inl err, s')) \<and>
   (GetArtifactDetails w c app build slug s = (Inr art, s') \<and>
    url_err w (ExpiringDownloadURL (DetailData art)) = None \<and>
    RoundTrip w (nreq s') DefaultClient
      \<lparr>Method = ''GET'', URL = ExpiringDownloadURL (DetailData art), Header = []\<rparr> = Inr resp \<longrightarrow>
      (\<exists>s''. DownloadArtifact w c app build slug s = (Inr ((Body resp)\<lparr>bid := nreq s'\<rparr>), s'') \<and>
            events_since s' s'' =
              [HttpSend (nreq s') DefaultClient
                 \<lparr>Method = ''GET'', URL = ExpiringDownloadURL (DetailData art), Header = []\<rparr>,
               BodyOpen (nreq s')]))"
  by (auto simp: DownloadArtifact_def events_since_def step_defs)

theorem DownloadArtifact_steps_witness:
  "fst (DownloadArtifact (sample_world (sample_env ''app.apk'') 200 503) (New ''secret'')
      ''app1'' ''build7'' ''abc123'' (init Map.empty)) =
     Inl (Errorf ''failed to get artifact details with status code (503) for [build_slug: app1, app_slug: build7]'') \<and>
   trace (snd (DownloadArtifact (sample_world (sample_env ''app.apk'') 200 503) (New ''secret'')
      ''app1'' ''build7'' ''abc123'' (init Map.empty))) =
     [HttpSend 0 \<lparr>Timeout = 20000000000\<rparr>
        \<lparr>Method = ''GET'', URL = ''https://api.bitrise.io/v0.1/apps/app1/builds/build7/artifacts/abc123'',
         Header = [(''Authorization'', ''token secret'')]\<rparr>,
      BodyOpen 0, BodyClose 0] \<and>
   fst (DownloadArtifact (sample_world (sample_env ''app.apk'') 200 200) (New ''secret'')
      ''app1'' ''build7'' ''abc123'' (init Map.empty)) =
     Inr \<lparr>bid = 1, stream = replicate 1024 (CHR ''x''), stream_err = None, close_err = None\<rparr> \<and>
   trace (snd (DownloadArtifact (sample_world (sample_env ''app.apk'') 200 200) (New ''secret'')
      ''app1'' ''build7'' ''abc123'' (init Map.empty))) =
     [HttpSend 0 \<lparr>Timeout = 20000000000\<rparr>
        \<lparr>Method = ''GET'', URL = ''https://api.bitrise.io/v0.1/apps/app1/builds/build7/artifacts/abc123'',
         Header = [(''Authorization'', ''token secret'')]\<rparr>,
      BodyOpen 0, BodyDecode 0, BodyClose 0,
      HttpSend 1 \<lparr>Timeout = 0\<rparr>
        \<lparr>Method = ''GET'', URL = ''https://files.example/app.apk?sig=1'', Header = []\<rparr>,
      BodyOpen 1]"
proof -
  let ?v = "sample_world (sample_env ''app.apk'') 200 503"
  let ?w = "sample_world (sample_env ''app.apk'') 200 200"
  let ?c = "New ''secret''"
  let ?s = "init Map.empty"
  let ?e = "Errorf ''failed to get artifact details with status code (503) for [build_slug: app1, app_slug: build7]''"
  let ?t = "snd (GetArtifactDetails ?v ?c ''app1'' ''build7'' ''abc123'' ?s)"
  let ?s' = "snd (GetArtifactDetails ?w ?c ''app1'' ''build7'' ''abc123'' ?s)"
  have f: "GetArtifactDetails ?v ?c ''app1'' ''build7'' ''abc123'' ?s = (Inl ?e, ?t)"
    by (simp add: run_defs sample_defs Itoa_def digits.simps)
  have g: "GetArtifactDetails ?w ?c ''app1'' ''build7'' ''abc123'' ?s = (Inr sample_detail, ?s') \<and>
    url_err ?w (ExpiringDownloadURL (DetailData sample_detail)) = None \<and>
    RoundTrip ?w (nreq ?s') DefaultClient
      \<lparr>Method = ''GET'', URL = ExpiringDownloadURL (DetailData sample_detail), Header = []\<rparr> =
      Inr (sample_response 200 (replicate 1024 (CHR ''x'')))"
    by (simp add: run_defs sample_defs)
  from DownloadArtifact_steps [where w = ?v and c = ?c and app = "''app1''" and build = "''build7''"
      and slug = "''abc123''" and s = ?s and s' = ?t and err = ?e] f
  have a: "DownloadArtifact ?v ?c ''app1'' ''build7'' ''abc123'' ?s = (Inl ?e, ?t)"
    by simp
  from DownloadArtifact_steps [where w = ?w and c = ?c and app = "''app1''" and build = "''build7''"
      and slug = "''abc123''" and s = ?s and s' = ?s' and art = sample_detail
      and resp = "sample_response 200 (replicate 1024 (CHR ''x''))"] g
  have b: "fst (DownloadArtifact ?w ?c ''app1'' ''build7'' ''abc123'' ?s) =
     Inr \<lparr>bid = 1, stream = replicate 1024 (CHR ''x''), stream_err = None, close_err = None\<rparr>"
    by (auto simp: run_defs sample_defs)
  show ?thesis
    using a b by (simp add: run_defs sample_defs Itoa_def digits.simps)
qed

subsection \<open>C8: the exit status\<close>

text \<open>
  Claim C8 says that the process exits with status 0 on success and with status 1 on any
  failure, the message of the error being printed to standard output. Every step that reports
  an error ends the run so. One failure is not reported: \<^verbatim>\<open>DownloadArtifact\<close> does not look
  at the status code of the download response, as \<^verbatim>\<open>GetArtifactsForBuild\<close> and
  \<^verbatim>\<open>GetArtifactDetails\<close> do for theirs. When the download URL answers 404, the run writes
  the body of that answer to the file, prints \<^verbatim>\<open>done, [9 byte] downloaded\<close> and exits with
  status 0; the same status on the listing or on the detail request ends the run with status 1
  and the message of the error.
\<close>

theorem download_404_exits_0:
  "RoundTrip not_found_world 2 DefaultClient
     \<lparr>Method = ''GET'', URL = ''https://files.example/app.apk?sig=1'', Header = []\<rparr> =
     Inr (sample_response 404 ''Not Found'') \<and>
   HttpSend 2 DefaultClient
     \<lparr>Method = ''GET'', URL = ''https://files.example/app.apk?sig=1'', Header = []\<rparr>
     \<in> set (trace (snd (main not_found_world Map.empty))) \<and>
   fst (main not_found_world Map.empty) = 0 \<and>
   stdout (snd (main not_found_world Map.empty)) = ''done, [9 byte] downloaded\<newline>'' \<and>
   files (snd (main not_found_world Map.empty)) ''app.apk'' = Some ''Not Found'' \<and>
   fst (main (sample_world (sample_env ''app.apk'') 404 200) Map.empty) = 1 \<and>
   stdout (snd (main (sample_world (sample_env ''app.apk'') 404 200) Map.empty)) =
     ''Error: failed to get artifacts with status code (404) for [build_slug: app1, app_slug: build7]\<newline>'' \<and>
   fst (main (sample_world (sample_env ''app.apk'') 200 404) Map.empty) = 1 \<and>
   stdout (snd (main (sample_world (sample_env ''app.apk'') 200 404) Map.empty)) =
     ''Error: failed to get artifact details with status code (404) for [build_slug: app1, app_slug: build7]\<newline>''"
  by (simp add: not_found_world_def run_defs sample_defs Itoa_def digits.simps DefaultClient_def)

subsection \<open>C9: closing the response bodies\<close>

text \<open>
  Claim C9 says that every response body obtained during a run is closed on every path,
  the body returned by \<^verbatim>\<open>DownloadArtifact\<close> included. The listing's and the detail's
  bodies are closed by the deferred \<^verbatim>\<open>responseBodyCloser\<close>. The download's body is not:
  \<^verbatim>\<open>mainE\<close> copies it and returns without closing it. In the successful run of the sample
  world the third body is opened and the trace has no closing of it.
\<close>

theorem download_body_left_open:
  "fst (main (sample_world (sample_env ''app.apk'') 200 200) Map.empty) = 0 \<and>
   trace (snd (main (sample_world (sample_env ''app.apk'') 200 200) Map.empty)) =
     [MkdirAll ''.'',
      HttpSend 0 \<lparr>Timeout = 20000000000\<rparr>
        \<lparr>Method = ''GET'', URL = ''https://api.bitrise.io/v0.1/apps/app1/builds/build7/artifacts'',
         Header = [(''Authorization'', ''token secret'')]\<rparr>,
      BodyOpen 0, BodyDecode 0, BodyClose 0,
      HttpSend 1 \<lparr>Timeout = 20000000000\<rparr>
        \<lparr>Method = ''GET'', URL = ''https://api.bitrise.io/v0.1/apps/app1/builds/build7/artifacts/abc123'',
         Header = [(''Authorization'', ''token secret'')]\<rparr>,
      BodyOpen 1, BodyDecode 1, BodyClose 1,
      HttpSend 2 \<lparr>Timeout = 0\<rparr>
        \<lparr>Method = ''GET'', URL = ''https://files.example/app.apk?sig=1'', Header = []\<rparr>,
      BodyOpen 2, Create ''app.apk'', BodyCopy 2 ''app.apk''] \<and>
   BodyOpen 2 \<in> set (trace (snd (main (sample_world (sample_env ''app.apk'') 200 200) Map.empty))) \<and>
   BodyClose 2 \<notin> set (trace (snd (main (sample_world (sample_env ''app.apk'') 200 200) Map.empty)))"
  by (simp add: run_defs sample_defs)

subsection \<open>C10: the value of the header\<close>

text \<open>
  Claim C10. Every request that \<^verbatim>\<open>Client.get\<close> sends has one header, \<^verbatim>\<open>Authorization\<close>,
  and its value is the word \<^verbatim>\<open>token\<close>, a space and the client's token; the scheme word is
  not \<^verbatim>\<open>Bearer\<close>.
\<close>

theorem get_authorization_value:
  assumes "HttpSend n hc req \<in> set (events_since s (snd (get w c endpoint s)))"
  shows "Header req = [(''Authorization'', ''token '' @ authToken c)] \<and>
         \<not> prefix ''Bearer'' (''token '' @ authToken c)"
  using assms by (auto simp: get_events split: option.splits sum.splits)

theorem get_authorization_value_witness:
  "HttpSend 0 \<lparr>Timeout = 20000000000\<rparr>
     \<lparr>Method = ''GET'', URL = ''https://api.bitrise.io/v0.1/apps/app1/builds/build7/artifacts/abc123'',
      Header = [(''Authorization'', ''token secret'')]\<rparr>
     \<in> set (events_since (init Map.empty)
          (snd (get (sample_world (sample_env ''app.apk'') 200 200) (New ''secret'')
                  ''apps/app1/builds/build7/artifacts/abc123'' (init Map.empty)))) \<and>
   [(''Authorization'', ''token secret'')] = [(''Authorization'', ''token '' @ authToken (New ''secret''))]"
proof -
  let ?w = "sample_world (sample_env ''app.apk'') 200 200"
  let ?req = "\<lparr>Method = ''GET'', URL = ''https://api.bitrise.io/v0.1/apps/app1/builds/build7/artifacts/abc123'',
      Header = [(''Authorization'', ''token secret'')]\<rparr>"
  have h: "HttpSend 0 \<lparr>Timeout = 20000000000\<rparr> ?req
     \<in> set (events_since (init Map.empty)
          (snd (get ?w (New ''secret'') ''apps/app1/builds/build7/artifacts/abc123'' (init Map.empty))))"
    by (simp add: run_defs sample_defs)
  from get_authorization_value [OF h] h show ?thesis
    by simp
qed

end
